theory Spec2Isabelle
  imports Complex_Main "HOL-Library.AList"
begin

section \<open>The XTP gateway of vnpy\_xtp: market-data and trading sessions\<close>

text \<open>
  A shallow embedding of \<^verbatim>\<open>vnpy_xtp/gateway/xtp_gateway.py\<close>. Each session object
  (\<^verbatim>\<open>XtpMdApi\<close>, \<^verbatim>\<open>XtpTdApi\<close>) is a record of its fields; a method takes the record
  and returns the record it leaves behind. Everything a method does to the outside
  (calls of the vendor SDK, events handed to the host gateway, log lines, the
  blocking sleep) is appended, in program order, to the trace field of the record.
  A method that can raise returns a pair: the state at the moment it stopped and
  \<open>Some\<close> exception, or \<open>None\<close> when it returned normally; Python keeps every
  mutation made before a raise, so the state is part of the result in both cases.

  Python floats (prices) are \<open>real\<close>: no rounding of floats is modelled.
  Quantities, which the vendor delivers as integers, are \<open>int\<close>.
  A \<^verbatim>\<open>datetime\<close> is the integer number of microseconds it denotes; the text of a
  vendor time field is represented by the result of
  \<^verbatim>\<open>datetime.strptime(str(field), "%Y%m%d%H%M%S%f")\<close>, with \<open>None\<close> where it raises
  \<^verbatim>\<open>ValueError\<close>.
\<close>

subsection \<open>Constants of the host framework\<close>

datatype Exchange = SSE | SZSE | OtherExchange string

fun exchange_value :: "Exchange \<Rightarrow> string" where
  "exchange_value SSE = ''SSE''"
| "exchange_value SZSE = ''SZSE''"
| "exchange_value (OtherExchange s) = s"

datatype Direction = LONG | SHORT | NET

datatype Offset = NONE | OPEN | CLOSE | CLOSETODAY | CLOSEYESTERDAY

datatype OrderType = LIMIT | MARKET | STOP | FAK | FOK | RFQ

datatype Status = SUBMITTING | NOTTRADED | PARTTRADED | ALLTRADED | CANCELLED | REJECTED

datatype error = KeyError | ValueError | UnboundLocalError

type_synonym datetime = int

subsection \<open>Mapping tables\<close>

definition MARKET_XTP2VT :: "int \<Rightarrow> Exchange option" where
  "MARKET_XTP2VT k = (if k = 1 then Some SZSE else if k = 2 then Some SSE else None)"

definition EXCHANGE_XTP2VT :: "int \<Rightarrow> Exchange option" where
  "EXCHANGE_XTP2VT k = (if k = 1 then Some SSE else if k = 2 then Some SZSE else None)"

fun EXCHANGE_VT2XTP :: "Exchange \<Rightarrow> int option" where
  "EXCHANGE_VT2XTP SSE = Some 1"
| "EXCHANGE_VT2XTP SZSE = Some 2"
| "EXCHANGE_VT2XTP (OtherExchange s) = None"

definition DIRECTION_STOCK_XTP2VT :: "int \<Rightarrow> (Direction \<times> Offset) option" where
  "DIRECTION_STOCK_XTP2VT k =
     (if k = 1 then Some (LONG, NONE)
      else if k = 2 then Some (SHORT, NONE)
      else if k = 21 then Some (LONG, OPEN)
      else if k = 22 then Some (SHORT, OPEN)
      else if k = 24 then Some (LONG, CLOSE)
      else if k = 23 then Some (SHORT, CLOSE)
      else None)"

definition DIRECTION_OPTION_XTP2VT :: "int \<Rightarrow> Direction option" where
  "DIRECTION_OPTION_XTP2VT k = (if k = 1 then Some LONG else if k = 2 then Some SHORT else None)"

definition OPTION_ORDERTYPE_XTP2VT :: "int \<Rightarrow> OrderType option" where
  "OPTION_ORDERTYPE_XTP2VT k =
     (if k = 1 then Some LIMIT else if k = 2 then Some MARKET else if k = 8 then Some FOK else None)"

definition EQUITY_ORDERTYPE_XTP2VT :: "int \<Rightarrow> OrderType option" where
  "EQUITY_ORDERTYPE_XTP2VT k = (if k = 1 then Some LIMIT else if k = 4 then Some MARKET else None)"

definition STAR_ORDERTYPE_XTP2VT :: "int \<Rightarrow> OrderType option" where
  "STAR_ORDERTYPE_XTP2VT k = (if k = 1 then Some LIMIT else if k = 7 then Some MARKET else None)"

definition PROTOCOL_VT2XTP :: "string \<Rightarrow> int option" where
  "PROTOCOL_VT2XTP s = (if s = ''TCP'' then Some 1 else if s = ''UDP'' then Some 2 else None)"

definition STATUS_XTP2VT :: "int \<Rightarrow> Status option" where
  "STATUS_XTP2VT k =
     (if k = 0 then Some SUBMITTING
      else if k = 1 then Some ALLTRADED
      else if k = 2 then Some PARTTRADED
      else if k = 3 then Some CANCELLED
      else if k = 4 then Some NOTTRADED
      else if k = 5 then Some CANCELLED
      else if k = 6 then Some REJECTED
      else if k = 7 then Some SUBMITTING
      else None)"

text \<open>\<^verbatim>\<open>OFFSET_XTP2VT\<close> is \<^verbatim>\<open>OFFSET_VT2XTP\<close> inverted.\<close>

definition OFFSET_XTP2VT :: "int \<Rightarrow> Offset option" where
  "OFFSET_XTP2VT k =
     (if k = 0 then Some NONE
      else if k = 1 then Some OPEN
      else if k = 2 then Some CLOSE
      else if k = 4 then Some CLOSETODAY
      else if k = 5 then Some CLOSEYESTERDAY
      else None)"

subsection \<open>Objects of the host framework and vendor payloads\<close>

record SubscribeRequest =
  req_symbol :: string
  req_exchange :: Exchange

record ContractData =
  c_name :: string
  c_pricetick :: real

text \<open>
  The five bid and ask levels of a tick (\<^verbatim>\<open>bid_price_1\<close> .. \<^verbatim>\<open>bid_price_5\<close> and so on)
  are kept as lists of five values.
\<close>

record TickData =
  tk_symbol :: string
  tk_exchange :: Exchange
  tk_datetime :: datetime
  tk_name :: string
  tk_volume :: int
  tk_turnover :: real
  tk_last_price :: real
  tk_limit_up :: real
  tk_limit_down :: real
  tk_open_price :: real
  tk_high_price :: real
  tk_low_price :: real
  tk_pre_close :: real
  tk_bid_price :: "real list"
  tk_ask_price :: "real list"
  tk_bid_volume :: "int list"
  tk_ask_volume :: "int list"
  tk_gateway_name :: string

record OrderData =
  o_symbol :: string
  o_exchange :: Exchange
  o_orderid :: int
  o_type :: OrderType
  o_direction :: Direction
  o_offset :: Offset
  o_price :: real
  o_volume :: int
  o_traded :: int
  o_status :: Status
  o_datetime :: "datetime option"
  o_gateway_name :: string

record TradeData =
  t_symbol :: string
  t_exchange :: Exchange
  t_orderid :: int
  t_tradeid :: string
  t_direction :: Direction
  t_offset :: Offset
  t_price :: real
  t_volume :: int
  t_datetime :: datetime
  t_gateway_name :: string

record PositionData =
  p_symbol :: string
  p_exchange :: Exchange
  p_direction :: Direction
  p_volume :: int
  p_frozen :: int
  p_price :: real
  p_pnl :: real
  p_yd_volume :: int
  p_gateway_name :: string

text \<open>The payload of \<^verbatim>\<open>onDepthMarketData\<close>; \<open>data_time\<close> is the parsed time field.\<close>

record xtp_tick =
  data_time :: "datetime option"
  ticker :: string
  exchange_id :: int
  qty :: int
  turnover :: real
  last_price :: real
  upper_limit_price :: real
  lower_limit_price :: real
  open_price :: real
  high_price :: real
  low_price :: real
  pre_close_price :: real
  bid :: "real list"
  ask :: "real list"
  bid_qty :: "int list"
  ask_qty :: "int list"

text \<open>The error dictionary the vendor passes along with a callback.\<close>

record xtp_error =
  error_id :: int
  error_msg :: string

text \<open>
  The payloads of \<^verbatim>\<open>onOrderEvent\<close> and \<^verbatim>\<open>onTradeEvent\<close>. The order id
  \<^verbatim>\<open>str(data["order_xtp_id"])\<close> is kept as the integer itself: the decimal text of
  an integer determines it.
\<close>

record xtp_order =
  oe_ticker :: string
  oe_side :: int
  oe_position_effect :: int
  oe_price_type :: int
  oe_order_xtp_id :: int
  oe_market :: int
  oe_price :: real
  oe_quantity :: int
  oe_qty_traded :: int
  oe_order_status :: int
  oe_insert_time :: "datetime option"

record xtp_trade =
  te_ticker :: string
  te_side :: int
  te_position_effect :: int
  te_trade_time :: "datetime option"
  te_market :: int
  te_order_xtp_id :: int
  te_exec_id :: string
  te_price :: real
  te_quantity :: int

record xtp_debt =
  de_debt_type :: int
  de_ticker :: string
  de_market :: int
  de_remain_qty :: int

subsection \<open>The trace of a session\<close>

text \<open>
  Log lines are identified by the place that writes them, with the values they
  print that matter here.
\<close>

datatype log_msg =
    MdDisconnected int int int
  | AutoReloginDisabled string
  | IgnoreEarlyTick string datetime datetime
  | TickNotSubscribed string datetime
  | ReceivedTick string datetime
  | MdAlreadyLoggedIn
  | MdLoginSucceeded
  | MdLoginFailed string
  | FirstSubscribe string "int option"
  | SubscribeAll
  | LoginStateIllegal
  | UnsubscribeBeforeResubscribe string "int option"
  | Resubscribe string "int option"
  | TdDisconnected int
  | OrderFailed
  | TradeOrderNotFound int
  | TdAlreadyLoggedIn
  | TdLoginSucceeded int
  | TdLoginFailed string

datatype vendor_call =
    createQuoteApi int string int
  | setHeartBeatInterval int
  | setUDPBufferSize int
  | md_login string int string string int string
  | getApiLastError
  | queryAllTickers int
  | init
  | subscribeMarketData string int "int option"
  | unSubscribeMarketData string int "int option"
  | subscribeAllMarketData
  | createTraderApi int string int
  | setSoftwareKey string
  | subscribePublicTopic int
  | td_login string int string string int
  | queryOptionAuctionInfo int int
  | queryAsset int int
  | queryCreditFundInfo int int

datatype effect =
    Vendor vendor_call
  | write_log log_msg
  | write_error string xtp_error
  | logging_info log_msg
  | logging_error log_msg
  | on_tick TickData
  | on_order OrderData
  | on_trade TradeData
  | on_position PositionData
  | sleep nat

definition vendor_calls :: "effect list \<Rightarrow> vendor_call list" where
  "vendor_calls tr = concat (map (\<lambda>e. case e of Vendor c \<Rightarrow> [c] | _ \<Rightarrow> []) tr)"

definition ticks_published :: "effect list \<Rightarrow> TickData list" where
  "ticks_published tr = concat (map (\<lambda>e. case e of on_tick t \<Rightarrow> [t] | _ \<Rightarrow> []) tr)"

subsection \<open>The market-data session \<^verbatim>\<open>XtpMdApi\<close>\<close>

text \<open>
  \<open>subscribe_request_list\<close> is a Python set of \<open>(symbol, exchange)\<close> tuples. It is
  kept as a list without repetitions whose order is the order in which the set is
  iterated; the set is only ever grown, and nothing proved below depends on
  that order. \<open>last_tick_time\<close> is the dict from \<^verbatim>\<open>vt_symbol\<close> to the time of the
  last tick published.
\<close>

record md_state =
  md_gateway_name :: string
  md_userid :: string
  md_password :: string
  md_client_id :: int
  md_server_ip :: string
  md_server_port :: int
  md_protocol :: int
  md_session_id :: int
  md_connect_status :: bool
  md_login_status :: bool
  sse_inited :: bool
  szse_inited :: bool
  subscribe_request_list :: "(string \<times> Exchange) list"
  last_tick_time :: "string \<rightharpoonup> datetime"
  re_connect_times :: int
  subscribe_all :: bool
  md_local_ip :: string
  md_trace :: "effect list"

text \<open>
  What a method reads from outside the process while it runs: the configuration
  table behind \<^verbatim>\<open>sys_config_repository.get_config_value\<close> (the \<^verbatim>\<open>config_value\<close> of
  the row found, if any), the value the vendor's \<^verbatim>\<open>login\<close> returns, the
  \<^verbatim>\<open>error_msg\<close> of \<^verbatim>\<open>getApiLastError()\<close>, and the contracts returned by
  \<^verbatim>\<open>stock_meta_repository.get_all_contracts()\<close> with their \<^verbatim>\<open>vt_symbol\<close>.
\<close>

record environment =
  get_config_value :: "string \<rightharpoonup> string"
  login_returns :: int
  last_error_msg :: string
  get_all_contracts :: "(string \<times> ContractData) list"

definition md_emit :: "effect \<Rightarrow> md_state \<Rightarrow> md_state" where
  "md_emit e st = st\<lparr>md_trace := md_trace st @ [e]\<rparr>"

text \<open>\<^verbatim>\<open>set.add\<close> on the list representation.\<close>

definition set_add :: "'a \<Rightarrow> 'a list \<Rightarrow> 'a list" where
  "set_add x xs = (if x \<in> set xs then xs else xs @ [x])"

text \<open>\<^verbatim>\<open>str.lower\<close> on ASCII text.\<close>

definition lower_char :: "char \<Rightarrow> char" where
  "lower_char c =
     (let n = (of_char c :: nat) in if 65 \<le> n \<and> n \<le> 90 then char_of (n + 32) else c)"

definition lower :: "string \<Rightarrow> string" where
  "lower s = map lower_char s"

text \<open>
  Modelled from the spec: \<^verbatim>\<open>DateUtil.datetime_a_le_b\<close> of \<^verbatim>\<open>vnpy.trader.utility\<close>, which
  the sources do not contain. The specification's tick normalizer (section 4.2,
  step 1) drops a tick that is strictly earlier than the last accepted
  timestamp recorded for its contract key, and its data model (section 3) asks
  of a tick a timestamp at or after the last accepted one. So the helper, which
  the callback asks whether to drop the tick, holds exactly when \<open>a\<close> is strictly
  earlier than \<open>b\<close>.
\<close>

definition datetime_a_le_b :: "datetime \<Rightarrow> datetime \<Rightarrow> bool" where
  "datetime_a_le_b a b = (a < b)"

primrec is_sub_symbol :: "(string \<times> Exchange) list \<Rightarrow> string \<Rightarrow> bool" where
  "is_sub_symbol [] symbol = False"
| "is_sub_symbol (sub_req # rest) symbol =
     (if fst sub_req = symbol then True else is_sub_symbol rest symbol)"

text \<open>The two loops of \<^verbatim>\<open>re_subscribe\<close>, each over the whole registry.\<close>

primrec unsubscribe_each :: "(string \<times> Exchange) list \<Rightarrow> md_state \<Rightarrow> md_state" where
  "unsubscribe_each [] st = st"
| "unsubscribe_each (req # rest) st =
     unsubscribe_each rest
       (md_emit (logging_info (UnsubscribeBeforeResubscribe (fst req) (EXCHANGE_VT2XTP (snd req))))
         (md_emit (Vendor (unSubscribeMarketData (fst req) 1 (EXCHANGE_VT2XTP (snd req)))) st))"

primrec subscribe_each :: "(string \<times> Exchange) list \<Rightarrow> md_state \<Rightarrow> md_state" where
  "subscribe_each [] st = st"
| "subscribe_each (req # rest) st =
     subscribe_each rest
       (md_emit (logging_info (Resubscribe (fst req) (EXCHANGE_VT2XTP (snd req))))
         (md_emit (Vendor (subscribeMarketData (fst req) 1 (EXCHANGE_VT2XTP (snd req)))) st))"

definition re_subscribe :: "md_state \<Rightarrow> md_state" where
  "re_subscribe st =
     (if subscribe_request_list st = [] then st
      else if \<not> md_login_status st then md_emit (logging_info LoginStateIllegal) st
      else
        let sub_list_clone = subscribe_request_list st
        in subscribe_each sub_list_clone (unsubscribe_each sub_list_clone st))"

definition query_contract :: "md_state \<Rightarrow> md_state" where
  "query_contract st = md_emit (Vendor (queryAllTickers 2)) (md_emit (Vendor (queryAllTickers 1)) st)"

definition md_login_server :: "environment \<Rightarrow> md_state \<Rightarrow> md_state" where
  "md_login_server env st =
     (let st1 = md_emit (Vendor (md_login (md_server_ip st) (md_server_port st) (md_userid st)
                   (md_password st) (md_protocol st) (md_local_ip st))) st
      in if login_returns env = 0
         then md_emit (write_log MdLoginSucceeded)
                (re_subscribe (md_emit (Vendor init)
                   (query_contract (st1\<lparr>md_connect_status := True, md_login_status := True\<rparr>))))
         else md_emit (write_log (MdLoginFailed (last_error_msg env)))
                (md_emit (Vendor getApiLastError) st1))"

definition md_onDisconnected :: "environment \<Rightarrow> int \<Rightarrow> md_state \<Rightarrow> md_state" where
  "md_onDisconnected env reason st =
     (let st1 = md_emit (write_log (MdDisconnected reason (md_client_id st) (re_connect_times st)))
                  (st\<lparr>md_connect_status := False, md_login_status := False\<rparr>);
          disabled =
            (if length (subscribe_request_list st1) > 0
             then (case get_config_value env ''re_auto_login_xtp'' of
                     None \<Rightarrow> None
                   | Some config_value \<Rightarrow>
                       if lower ''Y'' \<noteq> lower config_value then Some config_value else None)
             else None)
      in case disabled of
           Some config_value \<Rightarrow> md_emit (logging_info (AutoReloginDisabled config_value)) st1
         | None \<Rightarrow>
             md_login_server env
               ((md_emit (sleep 3) st1)\<lparr>re_connect_times := re_connect_times st1 + 1\<rparr>))"

definition md_connect ::
  "environment \<Rightarrow> string \<Rightarrow> string \<Rightarrow> int \<Rightarrow> string \<Rightarrow> int \<Rightarrow> string \<Rightarrow> int \<Rightarrow> string
     \<Rightarrow> md_state \<Rightarrow> md_state \<times> error option" where
  "md_connect env userid password client_id server_ip server_port quote_protocol log_level local_ip st =
     (let st1 = st\<lparr>md_userid := userid, md_password := password, md_client_id := client_id,
                    md_server_ip := server_ip, md_server_port := server_port\<rparr>
      in case PROTOCOL_VT2XTP quote_protocol of
           None \<Rightarrow> (st1, Some KeyError)
         | Some protocol \<Rightarrow>
             let st2 = st1\<lparr>md_protocol := protocol, md_local_ip := local_ip\<rparr>
             in if \<not> md_connect_status st2
                then
                  let st3 = md_emit (Vendor (setHeartBeatInterval 30))
                              (md_emit (Vendor (createQuoteApi (md_client_id st2)
                                          (lower (md_gateway_name st2)) log_level)) st2);
                      st4 = (if quote_protocol = ''UDP''
                             then md_emit (Vendor (setUDPBufferSize 1024)) st3 else st3)
                  in (md_login_server env st4, None)
                else (md_emit (write_log MdAlreadyLoggedIn) st2, None))"

definition md_subscribe :: "SubscribeRequest \<Rightarrow> md_state \<Rightarrow> md_state" where
  "md_subscribe req st =
     (if md_login_status st
      then
        let xtp_exchange = EXCHANGE_VT2XTP (req_exchange req);
            st1 = md_emit (logging_info (FirstSubscribe (req_symbol req) xtp_exchange))
                    (md_emit (Vendor (subscribeMarketData (req_symbol req) 1 xtp_exchange)) st)
        in st1\<lparr>subscribe_request_list :=
                 set_add (req_symbol req, req_exchange req) (subscribe_request_list st1)\<rparr>
      else st)"

definition subscribe_all_tickets :: "md_state \<Rightarrow> md_state" where
  "subscribe_all_tickets st =
     (if md_login_status st
      then (md_emit (logging_info SubscribeAll)
              (md_emit (Vendor subscribeAllMarketData) st))\<lparr>subscribe_all := True\<rparr>
      else st)"

text \<open>
  \<^verbatim>\<open>onDepthMarketData\<close>. \<open>round_to\<close> is the rounding helper of the host framework
  and \<open>symbol_contract_map\<close> the module's contract cache; the callback reads both.
  Unpacking \<^verbatim>\<open>data["bid"][0:5]\<close> into five names raises \<^verbatim>\<open>ValueError\<close> when
  the slice is shorter.
\<close>

definition five :: "'a list \<Rightarrow> 'a list option" where
  "five xs = (if length (take 5 xs) = 5 then Some (take 5 xs) else None)"

definition onDepthMarketData ::
  "(real \<Rightarrow> real \<Rightarrow> real) \<Rightarrow> (string \<rightharpoonup> ContractData) \<Rightarrow> xtp_tick \<Rightarrow> md_state
     \<Rightarrow> md_state \<times> error option" where
  "onDepthMarketData round_to symbol_contract_map data st =
     (case data_time data of
        None \<Rightarrow> (st, Some ValueError)
      | Some dt \<Rightarrow>
     (case EXCHANGE_XTP2VT (exchange_id data) of
        None \<Rightarrow> (st, Some KeyError)
      | Some exchange \<Rightarrow>
     (let vt_symbol = ticker data @ ''.'' @ exchange_value exchange in
      case (case last_tick_time st vt_symbol of
              None \<Rightarrow> None
            | Some seen \<Rightarrow> if datetime_a_le_b dt seen then Some seen else None) of
        Some seen \<Rightarrow> (md_emit (logging_info (IgnoreEarlyTick vt_symbol dt seen)) st, None)
      | None \<Rightarrow>
     (if \<not> subscribe_all st \<and> \<not> is_sub_symbol (subscribe_request_list st) (ticker data)
      then (md_emit (logging_error (TickNotSubscribed vt_symbol dt)) st, None)
      else
        let st1 = md_emit (logging_info (ReceivedTick vt_symbol dt)) st in
        case (five (bid data), five (ask data), five (bid_qty data), five (ask_qty data)) of
          (Some bid_price, Some ask_price, Some bid_volume, Some ask_volume) \<Rightarrow>
            (let tick = \<lparr>tk_symbol = ticker data, tk_exchange = exchange, tk_datetime = dt,
                         tk_name = [], tk_volume = qty data, tk_turnover = turnover data,
                         tk_last_price = last_price data, tk_limit_up = upper_limit_price data,
                         tk_limit_down = lower_limit_price data, tk_open_price = open_price data,
                         tk_high_price = high_price data, tk_low_price = low_price data,
                         tk_pre_close = pre_close_price data,
                         tk_bid_price = bid_price, tk_ask_price = ask_price,
                         tk_bid_volume = bid_volume, tk_ask_volume = ask_volume,
                         tk_gateway_name = md_gateway_name st\<rparr>;
                 tick1 = (case symbol_contract_map vt_symbol of
                            None \<Rightarrow> tick
                          | Some contract \<Rightarrow>
                              let pricetick = c_pricetick contract in
                              tick\<lparr>tk_last_price := round_to (last_price data) pricetick,
                                   tk_limit_up := round_to (upper_limit_price data) pricetick,
                                   tk_limit_down := round_to (lower_limit_price data) pricetick,
                                   tk_open_price := round_to (open_price data) pricetick,
                                   tk_high_price := round_to (high_price data) pricetick,
                                   tk_low_price := round_to (low_price data) pricetick,
                                   tk_pre_close := round_to (pre_close_price data) pricetick,
                                   tk_bid_price := map (\<lambda>p. round_to p pricetick) bid_price,
                                   tk_ask_price := map (\<lambda>p. round_to p pricetick) ask_price,
                                   tk_name := c_name contract\<rparr>);
                 st2 = md_emit (on_tick tick1) st1
             in (st2\<lparr>last_tick_time := (last_tick_time st2)(vt_symbol \<mapsto> dt)\<rparr>, None))
        | _ \<Rightarrow> (st1, Some ValueError)))))"

subsection \<open>The trading session \<^verbatim>\<open>XtpTdApi\<close>\<close>

text \<open>
  \<open>orders\<close> is the dict of live orders by order id. \<open>short_positions\<close> is the dict
  that accumulates the pages of a credit-debt query; it is an association list in
  insertion order, the order in which Python iterates \<^verbatim>\<open>dict.values()\<close>.
\<close>

record td_state =
  td_gateway_name :: string
  td_userid :: string
  td_password :: string
  td_client_id :: int
  td_server_ip :: string
  td_server_port :: int
  td_software_key :: string
  td_session_id :: int
  reqid :: int
  td_protocol :: int
  td_local_ip :: string
  margin_trading :: bool
  option_trading :: bool
  td_connect_status :: bool
  td_login_status :: bool
  short_positions :: "(string \<times> PositionData) list"
  orders :: "int \<rightharpoonup> OrderData"
  td_trace :: "effect list"

definition td_emit :: "effect \<Rightarrow> td_state \<Rightarrow> td_state" where
  "td_emit e st = st\<lparr>td_trace := td_trace st @ [e]\<rparr>"

definition query_account :: "td_state \<Rightarrow> td_state" where
  "query_account st =
     (if \<not> td_connect_status st then st
      else
        let st1 = st\<lparr>reqid := reqid st + 1\<rparr>
        in td_emit (Vendor (queryAsset (td_session_id st1) (reqid st1))) st1)"

definition query_credit_asset :: "td_state \<Rightarrow> td_state" where
  "query_credit_asset st =
     (if \<not> td_connect_status st then st
      else
        let st1 = st\<lparr>reqid := reqid st + 1\<rparr>
        in td_emit (Vendor (queryCreditFundInfo (td_session_id st1) (reqid st1))) st1)"

definition query_option_info :: "td_state \<Rightarrow> td_state" where
  "query_option_info st =
     (let st1 = st\<lparr>reqid := reqid st + 1\<rparr>
      in td_emit (Vendor (queryOptionAuctionInfo (td_session_id st1) (reqid st1))) st1)"

text \<open>
  \<^verbatim>\<open>init_contract_data\<close> writes the module's contract cache \<open>symbol_contract_map\<close>,
  which the trading session's login therefore takes and returns.
\<close>

definition init_contract_data ::
  "environment \<Rightarrow> (string \<rightharpoonup> ContractData) \<Rightarrow> (string \<rightharpoonup> ContractData)" where
  "init_contract_data env symbol_contract_map =
     fold (\<lambda>contrat m. m(fst contrat \<mapsto> snd contrat)) (get_all_contracts env) symbol_contract_map"

definition td_login_server ::
  "environment \<Rightarrow> td_state \<times> (string \<rightharpoonup> ContractData) \<Rightarrow> td_state \<times> (string \<rightharpoonup> ContractData)" where
  "td_login_server env s =
     (let st = fst s; symbol_contract_map = snd s;
          n = login_returns env;
          st1 = td_emit (Vendor (td_login (td_server_ip st) (td_server_port st) (td_userid st)
                   (td_password st) (td_protocol st))) st
      in if n \<noteq> 0
         then
           let st2 = td_emit (Vendor init)
                       (st1\<lparr>td_session_id := n, td_connect_status := True, td_login_status := True\<rparr>)
           in (query_option_info (td_emit (write_log (TdLoginSucceeded n)) st2),
               init_contract_data env symbol_contract_map)
         else
           (query_option_info
              (td_emit (write_log (TdLoginFailed (last_error_msg env)))
                 (td_emit (Vendor getApiLastError) st1)),
            symbol_contract_map))"

definition td_connect ::
  "environment \<Rightarrow> string \<Rightarrow> string \<Rightarrow> int \<Rightarrow> string \<Rightarrow> int \<Rightarrow> string \<Rightarrow> int \<Rightarrow> string
     \<Rightarrow> td_state \<times> (string \<rightharpoonup> ContractData) \<Rightarrow> td_state \<times> (string \<rightharpoonup> ContractData)" where
  "td_connect env userid password client_id server_ip server_port software_key log_level local_ip s =
     (let st = fst s; symbol_contract_map = snd s;
          st1 = st\<lparr>td_userid := userid, td_password := password, td_client_id := client_id,
                    td_server_ip := server_ip, td_server_port := server_port,
                    td_software_key := software_key,
                    td_protocol := the (PROTOCOL_VT2XTP ''TCP''), td_local_ip := local_ip\<rparr>
      in if \<not> td_connect_status st1
         then
           td_login_server env
             (td_emit (Vendor (subscribePublicTopic 0))
                (td_emit (Vendor (setSoftwareKey (td_software_key st1)))
                   (td_emit (Vendor (createTraderApi (td_client_id st1)
                               (lower (td_gateway_name st1)) log_level)) st1)),
              symbol_contract_map)
         else (td_emit (write_log TdAlreadyLoggedIn) st1, symbol_contract_map))"

text \<open>
  The decoding of side and position effect that \<^verbatim>\<open>onOrderEvent\<close> and
  \<^verbatim>\<open>onTradeEvent\<close> both start with: eight-character symbols are options.
\<close>

definition direction_offset :: "string \<Rightarrow> int \<Rightarrow> int \<Rightarrow> error + (Direction \<times> Offset)" where
  "direction_offset symbol side position_effect =
     (if length symbol = 8
      then (case DIRECTION_OPTION_XTP2VT side of
              None \<Rightarrow> Inl KeyError
            | Some direction \<Rightarrow>
                (case OFFSET_XTP2VT position_effect of
                   None \<Rightarrow> Inl KeyError
                 | Some offset \<Rightarrow> Inr (direction, offset)))
      else (case DIRECTION_STOCK_XTP2VT side of
              None \<Rightarrow> Inl KeyError
            | Some d \<Rightarrow> Inr d))"

definition order_type_of :: "string \<Rightarrow> int \<Rightarrow> OrderType" where
  "order_type_of symbol price_type =
     (let type_map =
        (if length symbol = 8 then OPTION_ORDERTYPE_XTP2VT
         else if take 3 symbol = ''688'' then STAR_ORDERTYPE_XTP2VT
         else EQUITY_ORDERTYPE_XTP2VT)
      in case type_map price_type of None \<Rightarrow> MARKET | Some t \<Rightarrow> t)"

text \<open>
  The end of \<^verbatim>\<open>onOrderEvent\<close>: stamp the insertion time once, then publish a copy.
  \<open>order\<close> is the object held in \<open>orders\<close> under the event's order id, so
  stamping it changes that entry.
\<close>

definition stamp_and_publish :: "xtp_order \<Rightarrow> OrderData \<Rightarrow> td_state \<Rightarrow> td_state \<times> error option" where
  "stamp_and_publish data order st =
     (case o_datetime order of
        Some d \<Rightarrow> (td_emit (on_order order) st, None)
      | None \<Rightarrow>
          (case oe_insert_time data of
             None \<Rightarrow> (st, Some ValueError)
           | Some dt \<Rightarrow>
               let order1 = order\<lparr>o_datetime := Some dt\<rparr>
               in (td_emit (on_order order1)
                     (st\<lparr>orders := (orders st)(oe_order_xtp_id data \<mapsto> order1)\<rparr>), None)))"

definition onOrderEvent :: "xtp_order \<Rightarrow> xtp_error \<Rightarrow> td_state \<Rightarrow> td_state \<times> error option" where
  "onOrderEvent data err st =
     (let st0 = (if error_id err \<noteq> 0
                 then td_emit (write_log OrderFailed) (td_emit (write_error ''order'' err) st)
                 else st);
          symbol = oe_ticker data
      in case direction_offset symbol (oe_side data) (oe_position_effect data) of
           Inl e \<Rightarrow> (st0, Some e)
         | Inr (direction, offset) \<Rightarrow>
     (let order_type = order_type_of symbol (oe_price_type data);
          orderid = oe_order_xtp_id data
      in case orders st0 orderid of
           None \<Rightarrow>
             (case MARKET_XTP2VT (oe_market data) of
                None \<Rightarrow> (st0, Some KeyError)
              | Some exchange \<Rightarrow>
             (case STATUS_XTP2VT (oe_order_status data) of
                None \<Rightarrow> (st0, Some KeyError)
              | Some status \<Rightarrow>
                  let order = \<lparr>o_symbol = symbol, o_exchange = exchange, o_orderid = orderid,
                               o_type = order_type, o_direction = direction, o_offset = offset,
                               o_price = oe_price data, o_volume = oe_quantity data,
                               o_traded = oe_qty_traded data, o_status = status,
                               o_datetime = None, o_gateway_name = td_gateway_name st0\<rparr>
                  in stamp_and_publish data order
                       (st0\<lparr>orders := (orders st0)(orderid \<mapsto> order)\<rparr>)))
         | Some order \<Rightarrow>
             let order1 = order\<lparr>o_traded := oe_qty_traded data\<rparr>;
                 st1 = st0\<lparr>orders := (orders st0)(orderid \<mapsto> order1)\<rparr>
             in (case STATUS_XTP2VT (oe_order_status data) of
                   None \<Rightarrow> (st1, Some KeyError)
                 | Some status \<Rightarrow>
                     let order2 = order1\<lparr>o_status := status\<rparr>
                     in stamp_and_publish data order2
                          (st1\<lparr>orders := (orders st1)(orderid \<mapsto> order2)\<rparr>))))"

text \<open>The \<^verbatim>\<open>TradeData\<close> that \<^verbatim>\<open>onTradeEvent\<close> builds before it looks the order up.\<close>

definition trade_of_event :: "string \<Rightarrow> xtp_trade \<Rightarrow> error + TradeData" where
  "trade_of_event gateway_name data =
     (case direction_offset (te_ticker data) (te_side data) (te_position_effect data) of
        Inl e \<Rightarrow> Inl e
      | Inr (direction, offset) \<Rightarrow>
     (case te_trade_time data of
        None \<Rightarrow> Inl ValueError
      | Some dt \<Rightarrow>
     (case MARKET_XTP2VT (te_market data) of
        None \<Rightarrow> Inl KeyError
      | Some exchange \<Rightarrow>
          Inr \<lparr>t_symbol = te_ticker data, t_exchange = exchange,
               t_orderid = te_order_xtp_id data, t_tradeid = te_exec_id data,
               t_direction = direction, t_offset = offset, t_price = te_price data,
               t_volume = te_quantity data, t_datetime = dt,
               t_gateway_name = gateway_name\<rparr>)))"

text \<open>
  In \<^verbatim>\<open>onTradeEvent\<close> the name \<^verbatim>\<open>order\<close> is bound only in the branch that finds the
  order; the test \<^verbatim>\<open>order.status in [...]\<close> after the branches raises
  \<^verbatim>\<open>UnboundLocalError\<close> when the other branch ran.
\<close>

definition onTradeEvent :: "xtp_trade \<Rightarrow> td_state \<Rightarrow> td_state \<times> error option" where
  "onTradeEvent data st =
     (case trade_of_event (td_gateway_name st) data of
        Inl e \<Rightarrow> (st, Some e)
      | Inr trade \<Rightarrow>
     (case orders st (t_orderid trade) of
        Some order \<Rightarrow>
          let order1 = order\<lparr>o_traded := o_traded order + t_volume trade\<rparr>;
              order2 = order1\<lparr>o_status :=
                         (if o_traded order1 < o_volume order1 then PARTTRADED else ALLTRADED)\<rparr>;
              st1 = td_emit (on_order order2)
                      (st\<lparr>orders := (orders st)(t_orderid trade \<mapsto> order2)\<rparr>);
              st2 = td_emit (on_trade trade) st1
          in if o_status order2 \<in> set [PARTTRADED, ALLTRADED]
             then (query_credit_asset (query_account st2), None)
             else (st2, None)
      | None \<Rightarrow>
          let st1 = td_emit (write_log (TradeOrderNotFound (t_orderid trade))) st;
              st2 = td_emit (on_trade trade) st1
          in (st2, Some UnboundLocalError)))"

definition onQueryCreditDebtInfo :: "xtp_debt \<Rightarrow> bool \<Rightarrow> td_state \<Rightarrow> td_state \<times> error option" where
  "onQueryCreditDebtInfo data is_last st =
     (case (if de_debt_type data = 1
            then (case MARKET_XTP2VT (de_market data) of
                    None \<Rightarrow> Inl KeyError
                  | Some exchange \<Rightarrow>
                      let symbol = de_ticker data;
                          position =
                            (case map_of (short_positions st) symbol of
                               None \<Rightarrow>
                                 \<lparr>p_symbol = symbol, p_exchange = exchange, p_direction = SHORT,
                                  p_volume = 0, p_frozen = 0, p_price = 0, p_pnl = 0,
                                  p_yd_volume = 0, p_gateway_name = td_gateway_name st\<rparr>
                             | Some p \<Rightarrow> p)
                      in Inr (st\<lparr>short_positions :=
                                  AList.update symbol
                                    (position\<lparr>p_volume := p_volume position + de_remain_qty data\<rparr>)
                                    (short_positions st)\<rparr>))
            else Inr st) of
        Inl e \<Rightarrow> (st, Some e)
      | Inr st1 \<Rightarrow>
          if is_last
          then ((st1\<lparr>td_trace := td_trace st1 @ map (\<lambda>kv. on_position (snd kv)) (short_positions st1)\<rparr>)
                  \<lparr>short_positions := []\<rparr>, None)
          else (st1, None))"

text \<open>Callbacks delivered one after the other; an exception ends the run.\<close>

datatype td_event = OrderEvent xtp_order xtp_error | TradeEvent xtp_trade

fun event_order_id :: "td_event \<Rightarrow> int" where
  "event_order_id (OrderEvent data err) = oe_order_xtp_id data"
| "event_order_id (TradeEvent data) = te_order_xtp_id data"

fun td_deliver :: "td_event \<Rightarrow> td_state \<Rightarrow> td_state \<times> error option" where
  "td_deliver (OrderEvent data err) st = onOrderEvent data err st"
| "td_deliver (TradeEvent data) st = onTradeEvent data st"

fun td_deliver_all :: "td_event list \<Rightarrow> td_state \<Rightarrow> td_state \<times> error option" where
  "td_deliver_all [] st = (st, None)"
| "td_deliver_all (e # es) st =
     (case td_deliver e st of
        (st1, None) \<Rightarrow> td_deliver_all es st1
      | (st1, Some x) \<Rightarrow> (st1, Some x))"

fun debt_pages :: "(xtp_debt \<times> bool) list \<Rightarrow> td_state \<Rightarrow> td_state \<times> error option" where
  "debt_pages [] st = (st, None)"
| "debt_pages (pg # pgs) st =
     (case onQueryCreditDebtInfo (fst pg) (snd pg) st of
        (st1, None) \<Rightarrow> debt_pages pgs st1
      | (st1, Some x) \<Rightarrow> (st1, Some x))"

subsection \<open>Freshly constructed sessions, and what a call appends to the trace\<close>

definition XtpMdApi_init :: "string \<Rightarrow> md_state" where
  "XtpMdApi_init gateway_name =
     \<lparr>md_gateway_name = gateway_name, md_userid = [], md_password = [], md_client_id = 0,
      md_server_ip = [], md_server_port = 0, md_protocol = 0, md_session_id = 0,
      md_connect_status = False, md_login_status = False,
      sse_inited = False, szse_inited = False,
      subscribe_request_list = [], last_tick_time = Map.empty,
      re_connect_times = 0, subscribe_all = False,
      md_local_ip = ''127.0.0.1'', md_trace = []\<rparr>"

definition XtpTdApi_init :: "string \<Rightarrow> td_state" where
  "XtpTdApi_init gateway_name =
     \<lparr>td_gateway_name = gateway_name, td_userid = [], td_password = [], td_client_id = 0,
      td_server_ip = [], td_server_port = 0, td_software_key = [], td_session_id = 0,
      reqid = 0, td_protocol = 0, td_local_ip = ''127.0.0.1'',
      margin_trading = False, option_trading = False,
      td_connect_status = False, td_login_status = False,
      short_positions = [], orders = Map.empty, td_trace = []\<rparr>"

definition md_appended :: "md_state \<Rightarrow> md_state \<Rightarrow> effect list" where
  "md_appended st st1 = drop (length (md_trace st)) (md_trace st1)"

definition td_appended :: "td_state \<Rightarrow> td_state \<Rightarrow> effect list" where
  "td_appended st st1 = drop (length (td_trace st)) (td_trace st1)"

definition is_unsubscribe :: "vendor_call \<Rightarrow> bool" where
  "is_unsubscribe c = (case c of unSubscribeMarketData s n x \<Rightarrow> True | _ \<Rightarrow> False)"

definition is_subscribe :: "vendor_call \<Rightarrow> bool" where
  "is_subscribe c = (case c of subscribeMarketData s n x \<Rightarrow> True | _ \<Rightarrow> False)"

definition unsubscribe_call :: "string \<times> Exchange \<Rightarrow> vendor_call" where
  "unsubscribe_call req = unSubscribeMarketData (fst req) 1 (EXCHANGE_VT2XTP (snd req))"

definition subscribe_call :: "string \<times> Exchange \<Rightarrow> vendor_call" where
  "subscribe_call req = subscribeMarketData (fst req) 1 (EXCHANGE_VT2XTP (snd req))"

subsection \<open>Concrete sessions and payloads\<close>

text \<open>
  A vendor environment in which login succeeds and no auto-reconnect policy is
  configured, one in which the policy is \<open>N\<close>, a market-data session that has
  connected and subscribed to two symbols, and a tick payload.
\<close>

definition example_env :: environment where
  "example_env = \<lparr>get_config_value = Map.empty, login_returns = 0, last_error_msg = [],
                   get_all_contracts = []\<rparr>"

definition example_env_policy_N :: environment where
  "example_env_policy_N = example_env\<lparr>get_config_value := [''re_auto_login_xtp'' \<mapsto> ''N'']\<rparr>"

definition example_md :: md_state where
  "example_md =
     md_subscribe \<lparr>req_symbol = ''000001'', req_exchange = SZSE\<rparr>
       (md_subscribe \<lparr>req_symbol = ''600000'', req_exchange = SSE\<rparr>
          (fst (md_connect example_env ''alice'' ''secret'' 1 ''10.0.0.1'' 6002 ''TCP'' 3 ''10.0.0.9''
                  (XtpMdApi_init ''XTP''))))"

definition example_tick :: "string \<Rightarrow> int \<Rightarrow> datetime \<Rightarrow> xtp_tick" where
  "example_tick symbol exchange dt =
     \<lparr>data_time = Some dt, ticker = symbol, exchange_id = exchange, qty = 100, turnover = 1000,
      last_price = 10, upper_limit_price = 11, lower_limit_price = 9, open_price = 10,
      high_price = 10, low_price = 10, pre_close_price = 10,
      bid = [10, 10, 10, 10, 10], ask = [11, 11, 11, 11, 11],
      bid_qty = [1, 1, 1, 1, 1], ask_qty = [1, 1, 1, 1, 1]\<rparr>"

definition no_rounding :: "real \<Rightarrow> real \<Rightarrow> real" where
  "no_rounding v target = v"

definition no_contracts :: "string \<rightharpoonup> ContractData" where
  "no_contracts = Map.empty"

text \<open>The session after it has published a tick of \<open>600000.SSE\<close> stamped \<open>T0\<close>.\<close>

definition T0 :: datetime where
  "T0 = 1701653400000000"

definition example_md_seen :: md_state where
  "example_md_seen =
     fst (onDepthMarketData no_rounding no_contracts (example_tick ''600000'' 1 T0) example_md)"

definition example_td_env :: environment where
  "example_td_env = example_env\<lparr>login_returns := 7\<rparr>"

text \<open>A trading session that has connected and logged in with session number 7.\<close>

definition example_td :: td_state where
  "example_td =
     fst (td_connect example_td_env ''alice'' ''secret'' 1 ''10.0.0.1'' 6001 ''key'' 3 ''10.0.0.9''
            (XtpTdApi_init ''XTP'', no_contracts))"

definition no_error :: xtp_error where
  "no_error = \<lparr>error_id = 0, error_msg = []\<rparr>"

text \<open>
  An order event for 1000 shares of \<open>600000\<close> on SSE with the given order id, vendor
  status and cumulative traded quantity, and a fill of that order.
\<close>

definition example_order_event :: "int \<Rightarrow> int \<Rightarrow> int \<Rightarrow> xtp_order" where
  "example_order_event orderid status traded =
     \<lparr>oe_ticker = ''600000'', oe_side = 1, oe_position_effect = 0, oe_price_type = 1,
      oe_order_xtp_id = orderid, oe_market = 2, oe_price = 10, oe_quantity = 1000,
      oe_qty_traded = traded, oe_order_status = status, oe_insert_time = Some T0\<rparr>"

definition example_fill :: "int \<Rightarrow> int \<Rightarrow> xtp_trade" where
  "example_fill orderid volume =
     \<lparr>te_ticker = ''600000'', te_side = 1, te_position_effect = 0, te_trade_time = Some T0,
      te_market = 2, te_order_xtp_id = orderid, te_exec_id = ''E1'', te_price = 10,
      te_quantity = volume\<rparr>"

definition example_trade :: "int \<Rightarrow> int \<Rightarrow> TradeData" where
  "example_trade orderid volume =
     \<lparr>t_symbol = ''600000'', t_exchange = SSE, t_orderid = orderid, t_tradeid = ''E1'',
      t_direction = LONG, t_offset = NONE, t_price = 10, t_volume = volume, t_datetime = T0,
      t_gateway_name = ''XTP''\<rparr>"

definition example_debt :: "int \<Rightarrow> string \<Rightarrow> int \<Rightarrow> xtp_debt" where
  "example_debt debt_type symbol remain =
     \<lparr>de_debt_type = debt_type, de_ticker = symbol, de_market = 1, de_remain_qty = remain\<rparr>"

subsection \<open>Notions used to state the properties of the trading session\<close>

definition positions_published :: "effect list \<Rightarrow> PositionData list" where
  "positions_published tr = concat (map (\<lambda>e. case e of on_position p \<Rightarrow> [p] | _ \<Rightarrow> []) tr)"

text \<open>The order under an id has not traded more than was requested.\<close>

definition within_volume :: "int \<Rightarrow> td_state \<Rightarrow> bool" where
  "within_volume orderid st =
     (case orders st orderid of None \<Rightarrow> True | Some order \<Rightarrow> o_traded order \<le> o_volume order)"

text \<open>
  An event that does not ask for more than the order's volume in the state it
  meets: an order update reports a cumulative traded quantity of at most the
  volume, a fill is at most what remains.
\<close>

fun event_within_volume :: "td_event \<Rightarrow> td_state \<Rightarrow> bool" where
  "event_within_volume (OrderEvent data err) st =
     (case orders st (oe_order_xtp_id data) of
        None \<Rightarrow> oe_qty_traded data \<le> oe_quantity data
      | Some order \<Rightarrow> oe_qty_traded data \<le> o_volume order)"
| "event_within_volume (TradeEvent data) st =
     (case orders st (te_order_xtp_id data) of
        None \<Rightarrow> True
      | Some order \<Rightarrow> o_traded order + te_quantity data \<le> o_volume order)"

fun events_within_volume :: "td_event list \<Rightarrow> td_state \<Rightarrow> bool" where
  "events_within_volume [] st = True"
| "events_within_volume (e # es) st =
     (event_within_volume e st \<and>
      (case td_deliver e st of
         (st1, None) \<Rightarrow> events_within_volume es st1
       | (st1, Some x) \<Rightarrow> True))"

text \<open>The status an event leaves on the order it has updated.\<close>

fun status_after :: "td_event \<Rightarrow> OrderData \<Rightarrow> Status option" where
  "status_after (OrderEvent data err) order = STATUS_XTP2VT (oe_order_status data)"
| "status_after (TradeEvent data) order =
     Some (if o_traded order < o_volume order then PARTTRADED else ALLTRADED)"

text \<open>The remaining short-sale debt of a symbol over the pages of a response.\<close>

definition short_debt_total :: "string \<Rightarrow> xtp_debt list \<Rightarrow> int" where
  "short_debt_total symbol pages =
     sum_list (map de_remain_qty
       (filter (\<lambda>d. de_debt_type d = 1 \<and> de_ticker d = symbol) pages))"

definition short_debt_symbols :: "xtp_debt list \<Rightarrow> string set" where
  "short_debt_symbols pages = set (map de_ticker (filter (\<lambda>d. de_debt_type d = 1) pages))"

definition accumulated :: "xtp_debt list \<Rightarrow> (string \<times> PositionData) list \<Rightarrow> bool" where
  "accumulated pages acc \<longleftrightarrow>
     distinct (map fst acc) \<and>
     dom (map_of acc) = short_debt_symbols pages \<and>
     (\<forall>k p. map_of acc k = Some p \<longrightarrow>
        p_symbol p = k \<and> p_direction p = SHORT \<and> p_volume p = short_debt_total k pages)"

text \<open>The order that \<open>example_order_event\<close> describes, as the session records it.\<close>

definition example_order :: "int \<Rightarrow> Status \<Rightarrow> int \<Rightarrow> OrderData" where
  "example_order orderid status traded =
     \<lparr>o_symbol = ''600000'', o_exchange = SSE, o_orderid = orderid, o_type = LIMIT,
      o_direction = LONG, o_offset = NONE, o_price = 10, o_volume = 1000, o_traded = traded,
      o_status = status, o_datetime = Some T0, o_gateway_name = ''XTP''\<rparr>"

text \<open>The trading session after the vendor has reported order 42 as not traded.\<close>

definition example_td_with_order :: td_state where
  "example_td_with_order = fst (onOrderEvent (example_order_event 42 4 0) no_error example_td)"

section \<open>Properties of the market-data session\<close>

subsection \<open>Traces\<close>

lemma vendor_calls_append [simp]: "vendor_calls (xs @ ys) = vendor_calls xs @ vendor_calls ys"
  by (simp add: vendor_calls_def)

lemma vendor_calls_Nil [simp]: "vendor_calls [] = []"
  by (simp add: vendor_calls_def)

lemma vendor_calls_Cons [simp]:
  "vendor_calls (e # es) = (case e of Vendor c \<Rightarrow> [c] | _ \<Rightarrow> []) @ vendor_calls es"
  by (simp add: vendor_calls_def)

lemma ticks_published_append [simp]:
  "ticks_published (xs @ ys) = ticks_published xs @ ticks_published ys"
  by (simp add: ticks_published_def)

lemma ticks_published_Nil [simp]: "ticks_published [] = []"
  by (simp add: ticks_published_def)

lemma ticks_published_Cons [simp]:
  "ticks_published (e # es) = (case e of on_tick t \<Rightarrow> [t] | _ \<Rightarrow> []) @ ticks_published es"
  by (simp add: ticks_published_def)

lemma md_appended_append [simp]: "md_trace st1 = md_trace st @ tr \<Longrightarrow> md_appended st st1 = tr"
  by (simp add: md_appended_def)

lemma td_appended_append [simp]: "td_trace st1 = td_trace st @ tr \<Longrightarrow> td_appended st st1 = tr"
  by (simp add: td_appended_def)

subsection \<open>The loops of the resubscription\<close>

lemma unsubscribe_each_eq:
  "unsubscribe_each reqs st =
     st\<lparr>md_trace := md_trace st @
          concat (map (\<lambda>req. [Vendor (unsubscribe_call req),
                              logging_info (UnsubscribeBeforeResubscribe (fst req) (EXCHANGE_VT2XTP (snd req)))])
                      reqs)\<rparr>"
  by (induction reqs arbitrary: st) (simp_all add: md_emit_def unsubscribe_call_def)

lemma subscribe_each_eq:
  "subscribe_each reqs st =
     st\<lparr>md_trace := md_trace st @
          concat (map (\<lambda>req. [Vendor (subscribe_call req),
                              logging_info (Resubscribe (fst req) (EXCHANGE_VT2XTP (snd req)))])
                      reqs)\<rparr>"
  by (induction reqs arbitrary: st) (simp_all add: md_emit_def subscribe_call_def)

lemma vendor_calls_unsubscribe_trace:
  "vendor_calls (concat (map (\<lambda>req. [Vendor (unsubscribe_call req),
        logging_info (UnsubscribeBeforeResubscribe (fst req) (EXCHANGE_VT2XTP (snd req)))]) reqs))
   = map unsubscribe_call reqs"
  by (induction reqs) simp_all

lemma vendor_calls_subscribe_trace:
  "vendor_calls (concat (map (\<lambda>req. [Vendor (subscribe_call req),
        logging_info (Resubscribe (fst req) (EXCHANGE_VT2XTP (snd req)))]) reqs))
   = map subscribe_call reqs"
  by (induction reqs) simp_all

lemma re_subscribe_calls:
  assumes "md_login_status st"
  shows "vendor_calls (md_appended st (re_subscribe st)) =
           map unsubscribe_call (subscribe_request_list st) @
           map subscribe_call (subscribe_request_list st)"
proof (cases "subscribe_request_list st = []")
  case True
  then show ?thesis by (simp add: re_subscribe_def md_appended_def)
next
  case False
  have "md_trace (re_subscribe st) = md_trace st @
          (concat (map (\<lambda>req. [Vendor (unsubscribe_call req),
              logging_info (UnsubscribeBeforeResubscribe (fst req) (EXCHANGE_VT2XTP (snd req)))])
              (subscribe_request_list st)) @
           concat (map (\<lambda>req. [Vendor (subscribe_call req),
              logging_info (Resubscribe (fst req) (EXCHANGE_VT2XTP (snd req)))])
              (subscribe_request_list st)))"
    using assms False
    by (simp add: re_subscribe_def Let_def unsubscribe_each_eq subscribe_each_eq)
  then have "md_appended st (re_subscribe st) =
          concat (map (\<lambda>req. [Vendor (unsubscribe_call req),
              logging_info (UnsubscribeBeforeResubscribe (fst req) (EXCHANGE_VT2XTP (snd req)))])
              (subscribe_request_list st)) @
           concat (map (\<lambda>req. [Vendor (subscribe_call req),
              logging_info (Resubscribe (fst req) (EXCHANGE_VT2XTP (snd req)))])
              (subscribe_request_list st))"
    by (rule md_appended_append)
  then show ?thesis
    by (simp add: vendor_calls_unsubscribe_trace vendor_calls_subscribe_trace)
qed

lemma re_subscribe_frame:
  "\<exists>tr. re_subscribe st = st\<lparr>md_trace := md_trace st @ tr\<rparr>"
proof -
  have self: "st = st\<lparr>md_trace := md_trace st @ []\<rparr>" by simp
  show ?thesis
    unfolding re_subscribe_def Let_def
    by (auto simp: unsubscribe_each_eq subscribe_each_eq md_emit_def intro: exI[of _ "[]"])
qed

lemma md_login_server_frame:
  "\<exists>tr. md_trace (md_login_server env st) =
          md_trace st @ Vendor (md_login (md_server_ip st) (md_server_port st) (md_userid st)
             (md_password st) (md_protocol st) (md_local_ip st)) # tr
      \<and> re_connect_times (md_login_server env st) = re_connect_times st
      \<and> subscribe_request_list (md_login_server env st) = subscribe_request_list st"
proof (cases "login_returns env = 0")
  case True
  let ?s = "md_emit (Vendor init) (query_contract
     ((md_emit (Vendor (md_login (md_server_ip st) (md_server_port st) (md_userid st)
        (md_password st) (md_protocol st) (md_local_ip st))) st)
        \<lparr>md_connect_status := True, md_login_status := True\<rparr>))"
  obtain tr where tr: "re_subscribe ?s = ?s\<lparr>md_trace := md_trace ?s @ tr\<rparr>"
    using re_subscribe_frame by blast
  show ?thesis
    using True
    by (simp add: md_login_server_def Let_def tr) (simp add: md_emit_def query_contract_def)
next
  case False
  then show ?thesis
    by (simp add: md_login_server_def Let_def md_emit_def)
qed

text \<open>A successful login sets \<open>login_status\<close> and then runs the resubscription.\<close>

lemma login_then_resubscribe:
  assumes "login_returns env = 0"
  shows "\<exists>s. md_login_server env st = md_emit (write_log MdLoginSucceeded) (re_subscribe s)
           \<and> md_login_status s \<and> subscribe_request_list s = subscribe_request_list st"
  using assms by (auto simp: md_login_server_def Let_def md_emit_def query_contract_def)

subsection \<open>Facts about the concrete sessions\<close>

lemma lower_Y: "lower ''Y'' = ''y''"
  by code_simp

lemma lower_N: "lower ''N'' \<noteq> ''y''"
  by code_simp

lemma example_md_fields:
  "md_login_status example_md" "md_connect_status example_md"
  "subscribe_request_list example_md = [(''600000'', SSE), (''000001'', SZSE)]"
  "\<not> subscribe_all example_md"
  "last_tick_time example_md = Map.empty"
  "md_userid example_md = ''alice''"
  "md_client_id example_md = 1"
  "re_connect_times example_md = 0"
  "md_gateway_name example_md = ''XTP''"
  by (simp_all add: example_md_def example_env_def XtpMdApi_init_def md_connect_def
        PROTOCOL_VT2XTP_def Let_def md_login_server_def md_emit_def query_contract_def
        re_subscribe_def md_subscribe_def set_add_def)

lemma example_md_seen_fields:
  "last_tick_time example_md_seen ''600000.SSE'' = Some T0"
  "subscribe_request_list example_md_seen = [(''600000'', SSE), (''000001'', SZSE)]"
  "\<not> subscribe_all example_md_seen"
  by (simp_all add: example_md_seen_def onDepthMarketData_def example_tick_def EXCHANGE_XTP2VT_def
        example_md_fields Let_def md_emit_def five_def no_contracts_def)

subsection \<open>Subscribing while logged out\<close>

text \<open>
  Claim C10. A call of \<^verbatim>\<open>subscribe\<close> made while the market-data session is not logged
  in does nothing at all: the session it leaves is the session it found, so no
  vendor call is added to the trace and the pair is not added to
  \<open>subscribe_request_list\<close>. A later resubscription that finds the registry as
  this call left it replays exactly the entries the registry had before the
  call, so a pair that was not there is not replayed.
\<close>

theorem subscribe_while_logged_out_is_noop:
  assumes "\<not> md_login_status st"
  shows "md_subscribe req st = st
       \<and> (\<forall>later. md_login_status later
              \<and> subscribe_request_list later = subscribe_request_list (md_subscribe req st) \<longrightarrow>
            vendor_calls (md_appended later (re_subscribe later)) =
              map unsubscribe_call (subscribe_request_list st) @
              map subscribe_call (subscribe_request_list st))"
proof -
  have same: "md_subscribe req st = st"
    using assms by (simp add: md_subscribe_def)
  show ?thesis
    unfolding same using re_subscribe_calls by auto
qed

theorem subscribe_while_logged_out_is_noop_witness:
  "md_subscribe \<lparr>req_symbol = ''600000'', req_exchange = SSE\<rparr> (XtpMdApi_init ''XTP'')
     = XtpMdApi_init ''XTP''"
proof -
  have h: "\<not> md_login_status (XtpMdApi_init ''XTP'')"
    by (simp add: XtpMdApi_init_def)
  show ?thesis
    using subscribe_while_logged_out_is_noop [OF h] by blast
qed

subsection \<open>Resubscription after a login\<close>

text \<open>
  Claim C7. \<^verbatim>\<open>re_subscribe\<close> is reached from \<^verbatim>\<open>login_server\<close> after a successful login,
  which has set \<open>login_status\<close>. With a non-empty registry, the vendor calls it
  issues are one unsubscribe per registry entry followed by one subscribe per
  registry entry: every entry gets both calls, and in the sequence of calls every
  unsubscribe comes before every subscribe.
\<close>

theorem resubscription_unsubscribes_before_subscribing:
  assumes "md_login_status st" and "subscribe_request_list st \<noteq> []"
  shows "let calls = vendor_calls (md_appended st (re_subscribe st)) in
           calls = map unsubscribe_call (subscribe_request_list st) @
                   map subscribe_call (subscribe_request_list st)
         \<and> (\<forall>req \<in> set (subscribe_request_list st).
               unsubscribe_call req \<in> set calls \<and> subscribe_call req \<in> set calls)
         \<and> (\<forall>i j. i < length calls \<and> j < length calls
                 \<and> is_unsubscribe (calls ! i) \<and> is_subscribe (calls ! j) \<longrightarrow> i < j)"
proof -
  let ?reg = "subscribe_request_list st"
  let ?calls = "map unsubscribe_call ?reg @ map subscribe_call ?reg"
  have shape: "vendor_calls (md_appended st (re_subscribe st)) = ?calls"
    using assms(1) by (rule re_subscribe_calls)
  have each: "\<forall>req \<in> set ?reg. unsubscribe_call req \<in> set ?calls \<and> subscribe_call req \<in> set ?calls"
    by simp
  have order: "i < j" if b: "i < length ?calls" "j < length ?calls"
    and u: "is_unsubscribe (?calls ! i)" and s: "is_subscribe (?calls ! j)" for i j
  proof -
    have "i < length ?reg"
    proof (rule ccontr)
      assume "\<not> i < length ?reg"
      then have "?calls ! i = subscribe_call (?reg ! (i - length ?reg))"
        using b(1) by (simp add: nth_append)
      then show False using u by (simp add: is_unsubscribe_def subscribe_call_def)
    qed
    moreover have "length ?reg \<le> j"
    proof (rule ccontr)
      assume "\<not> length ?reg \<le> j"
      then have "?calls ! j = unsubscribe_call (?reg ! j)"
        by (simp add: nth_append)
      then show False using s by (simp add: is_subscribe_def unsubscribe_call_def)
    qed
    ultimately show ?thesis by simp
  qed
  show ?thesis
    unfolding Let_def shape using each order by blast
qed

theorem resubscription_unsubscribes_before_subscribing_witness:
  "md_login_status example_md \<and> subscribe_request_list example_md \<noteq> [] \<and>
   vendor_calls (md_appended example_md (re_subscribe example_md)) =
     [unSubscribeMarketData ''600000'' 1 (Some 1), unSubscribeMarketData ''000001'' 1 (Some 2),
      subscribeMarketData ''600000'' 1 (Some 1), subscribeMarketData ''000001'' 1 (Some 2)]"
proof -
  have h1: "md_login_status example_md"
    by (rule example_md_fields)
  have h2: "subscribe_request_list example_md \<noteq> []"
    by (simp add: example_md_fields)
  show ?thesis
    using h1 h2 resubscription_unsubscribes_before_subscribing [OF h1 h2]
    by (simp add: Let_def example_md_fields unsubscribe_call_def subscribe_call_def)
qed

subsection \<open>Disconnect of the market-data session\<close>

text \<open>
  Claim C6. On \<^verbatim>\<open>onDisconnected\<close>: when the registry is non-empty and the policy
  \<^verbatim>\<open>re_auto_login_xtp\<close> is configured with a value whose lower-case form is not
  \<open>y\<close>, the callback only logs (the disconnect line and the policy line), leaves
  the reconnect counter alone and the session disconnected. In every other case
  (no policy row, a policy of \<open>Y\<close> or \<open>y\<close>, or an empty registry) it logs the
  disconnect, sleeps 3 seconds, adds one to the reconnect counter and calls the
  vendor login with the connection parameters stored in the session.
\<close>

theorem disconnect_reconnect_policy:
  "let st1 = md_onDisconnected env reason st;
       gone = write_log (MdDisconnected reason (md_client_id st) (re_connect_times st))
   in if subscribe_request_list st \<noteq> [] \<and>
         (\<exists>v. get_config_value env ''re_auto_login_xtp'' = Some v \<and> lower v \<noteq> ''y'')
      then md_appended st st1 =
             [gone, logging_info (AutoReloginDisabled (the (get_config_value env ''re_auto_login_xtp'')))]
           \<and> re_connect_times st1 = re_connect_times st
           \<and> \<not> md_connect_status st1 \<and> \<not> md_login_status st1
      else take 3 (md_appended st st1) =
             [gone, sleep 3,
              Vendor (md_login (md_server_ip st) (md_server_port st) (md_userid st)
                        (md_password st) (md_protocol st) (md_local_ip st))]
           \<and> re_connect_times st1 = re_connect_times st + 1"
proof (cases "subscribe_request_list st \<noteq> [] \<and>
         (\<exists>v. get_config_value env ''re_auto_login_xtp'' = Some v \<and> lower v \<noteq> ''y'')")
  case True
  then obtain v where v: "get_config_value env ''re_auto_login_xtp'' = Some v" "lower v \<noteq> ''y''"
    by blast
  have "md_onDisconnected env reason st =
          md_emit (logging_info (AutoReloginDisabled v))
            (md_emit (write_log (MdDisconnected reason (md_client_id st) (re_connect_times st)))
               (st\<lparr>md_connect_status := False, md_login_status := False\<rparr>))"
    using True v by (simp add: md_onDisconnected_def Let_def lower_Y md_emit_def)
  then show ?thesis
    using True v by (simp add: Let_def md_emit_def md_appended_def)
next
  case False
  let ?s = "(md_emit (sleep 3)
              (md_emit (write_log (MdDisconnected reason (md_client_id st) (re_connect_times st)))
                 (st\<lparr>md_connect_status := False, md_login_status := False\<rparr>)))
            \<lparr>re_connect_times := re_connect_times st + 1\<rparr>"
  have run: "md_onDisconnected env reason st = md_login_server env ?s"
    using False
    by (auto simp: md_onDisconnected_def Let_def lower_Y md_emit_def split: option.splits)
  obtain tr where tr: "md_trace (md_login_server env ?s) =
        md_trace ?s @ Vendor (md_login (md_server_ip ?s) (md_server_port ?s) (md_userid ?s)
             (md_password ?s) (md_protocol ?s) (md_local_ip ?s)) # tr"
      and cnt: "re_connect_times (md_login_server env ?s) = re_connect_times ?s"
    using md_login_server_frame [of env ?s] by blast
  have "md_trace (md_login_server env ?s) = md_trace st @
          ([write_log (MdDisconnected reason (md_client_id st) (re_connect_times st)), sleep 3,
            Vendor (md_login (md_server_ip st) (md_server_port st) (md_userid st)
                        (md_password st) (md_protocol st) (md_local_ip st))] @ tr)"
    using tr by (simp add: md_emit_def)
  then have "md_appended st (md_login_server env ?s) =
          [write_log (MdDisconnected reason (md_client_id st) (re_connect_times st)), sleep 3,
            Vendor (md_login (md_server_ip st) (md_server_port st) (md_userid st)
                        (md_password st) (md_protocol st) (md_local_ip st))] @ tr"
    by (rule md_appended_append)
  then show ?thesis
    using False cnt unfolding run Let_def by (simp add: md_emit_def)
qed

theorem disconnect_reconnect_policy_witness:
  "md_appended example_md (md_onDisconnected example_env_policy_N 10 example_md) =
     [write_log (MdDisconnected 10 1 0), logging_info (AutoReloginDisabled ''N'')]
   \<and> re_connect_times (md_onDisconnected example_env_policy_N 10 example_md) = 0
   \<and> take 3 (md_appended example_md (md_onDisconnected example_env 10 example_md)) =
       [write_log (MdDisconnected 10 1 0), sleep 3,
        Vendor (md_login (md_server_ip example_md) (md_server_port example_md) ''alice''
                  (md_password example_md) (md_protocol example_md) (md_local_ip example_md))]
   \<and> re_connect_times (md_onDisconnected example_env 10 example_md) = 1"
  using disconnect_reconnect_policy [of example_env_policy_N 10 example_md]
        disconnect_reconnect_policy [of example_env 10 example_md]
  by (simp add: Let_def example_md_fields example_env_policy_N_def example_env_def lower_N)

subsection \<open>The filters of the tick callback\<close>

lemma is_sub_symbol_iff: "is_sub_symbol reqs symbol \<longleftrightarrow> symbol \<in> fst ` set reqs"
  by (induction reqs) auto

text \<open>
  Claim C3. For a contract key with a recorded last tick time, the callback takes
  the early-tick exit (its only effect is the log line \<open>IgnoreEarlyTick\<close>) if
  and only if the tick's timestamp is strictly earlier than the recorded one. A
  tick dropped there publishes nothing and leaves \<open>last_tick_time\<close> as it was. A
  tick whose timestamp is the recorded one, or later, passes this filter: the
  callback goes on to the subscription filter, whose log line, or else the line
  that reports the tick as received, is the first thing it emits. The
  comparison itself is made by \<open>datetime_a_le_b\<close>.
\<close>

theorem stale_tick_filter:
  assumes "data_time data = Some dt"
    and "EXCHANGE_XTP2VT (exchange_id data) = Some exchange"
    and "last_tick_time st (ticker data @ ''.'' @ exchange_value exchange) = Some seen"
  shows "let st1 = fst (onDepthMarketData round_to contracts data st);
             vt_symbol = ticker data @ ''.'' @ exchange_value exchange
         in (md_appended st st1 = [logging_info (IgnoreEarlyTick vt_symbol dt seen)]
               \<longleftrightarrow> dt < seen)
          \<and> (dt < seen \<longrightarrow> last_tick_time st1 = last_tick_time st
                         \<and> ticks_published (md_appended st st1) = [])
          \<and> (seen \<le> dt \<longrightarrow>
                md_appended st st1 \<noteq> [] \<and>
                hd (md_appended st st1) =
                  (if \<not> subscribe_all st
                        \<and> \<not> is_sub_symbol (subscribe_request_list st) (ticker data)
                   then logging_error (TickNotSubscribed vt_symbol dt)
                   else logging_info (ReceivedTick vt_symbol dt)))"
  using assms
  by (auto simp: onDepthMarketData_def Let_def md_emit_def md_appended_def datetime_a_le_b_def
           split: option.splits)

theorem stale_tick_filter_witness:
  "md_appended example_md_seen
     (fst (onDepthMarketData no_rounding no_contracts (example_tick ''600000'' 1 (T0 - 1000000))
             example_md_seen))
     = [logging_info (IgnoreEarlyTick ''600000.SSE'' (T0 - 1000000) T0)]
   \<and> last_tick_time
       (fst (onDepthMarketData no_rounding no_contracts (example_tick ''600000'' 1 (T0 - 1000000))
               example_md_seen))
     = last_tick_time example_md_seen
   \<and> hd (md_appended example_md_seen
       (fst (onDepthMarketData no_rounding no_contracts (example_tick ''600000'' 1 T0)
               example_md_seen)))
     = logging_info (ReceivedTick ''600000.SSE'' T0)"
proof -
  have h1: "data_time (example_tick ''600000'' 1 (T0 - 1000000)) = Some (T0 - 1000000)"
    by (simp add: example_tick_def)
  have h2: "EXCHANGE_XTP2VT (exchange_id (example_tick ''600000'' 1 (T0 - 1000000))) = Some SSE"
    by (simp add: example_tick_def EXCHANGE_XTP2VT_def)
  have h3: "last_tick_time example_md_seen
              (ticker (example_tick ''600000'' 1 (T0 - 1000000)) @ ''.'' @ exchange_value SSE) = Some T0"
    by (simp add: example_tick_def example_md_seen_fields)
  have g1: "data_time (example_tick ''600000'' 1 T0) = Some T0"
    by (simp add: example_tick_def)
  have g2: "EXCHANGE_XTP2VT (exchange_id (example_tick ''600000'' 1 T0)) = Some SSE"
    by (simp add: example_tick_def EXCHANGE_XTP2VT_def)
  have g3: "last_tick_time example_md_seen
              (ticker (example_tick ''600000'' 1 T0) @ ''.'' @ exchange_value SSE) = Some T0"
    by (simp add: example_tick_def example_md_seen_fields)
  have earlier: "md_appended example_md_seen
     (fst (onDepthMarketData no_rounding no_contracts (example_tick ''600000'' 1 (T0 - 1000000))
             example_md_seen))
       = [logging_info (IgnoreEarlyTick ''600000.SSE'' (T0 - 1000000) T0)]
     \<and> last_tick_time
       (fst (onDepthMarketData no_rounding no_contracts (example_tick ''600000'' 1 (T0 - 1000000))
               example_md_seen))
       = last_tick_time example_md_seen"
    using stale_tick_filter [OF h1 h2 h3, of no_rounding no_contracts]
    by (simp add: Let_def example_tick_def)
  have equal: "hd (md_appended example_md_seen
       (fst (onDepthMarketData no_rounding no_contracts (example_tick ''600000'' 1 T0)
               example_md_seen)))
       = logging_info (ReceivedTick ''600000.SSE'' T0)"
    using stale_tick_filter [OF g1 g2 g3, of no_rounding no_contracts]
    by (simp add: Let_def example_tick_def example_md_seen_fields)
  show ?thesis
    using earlier equal by blast
qed

text \<open>
  Claim C4, as the code has it. \<^verbatim>\<open>__is_sub_symbol\<close> compares the tick's symbol with
  the symbol of each registry entry and never looks at the exchange. So, when
  all-market mode is off, a tick whose symbol is the symbol of no registry entry
  is dropped: no tick is published for it and \<open>last_tick_time\<close> stays as it was.
\<close>

theorem unsubscribed_symbol_is_dropped:
  assumes "\<not> subscribe_all st" and "ticker data \<notin> fst ` set (subscribe_request_list st)"
  shows "ticks_published (md_trace (fst (onDepthMarketData round_to contracts data st)))
           = ticks_published (md_trace st)
         \<and> last_tick_time (fst (onDepthMarketData round_to contracts data st)) = last_tick_time st"
  using assms
  by (auto simp: onDepthMarketData_def Let_def md_emit_def is_sub_symbol_iff
           split: option.splits)

theorem unsubscribed_symbol_is_dropped_witness:
  "ticks_published
     (md_trace (fst (onDepthMarketData no_rounding no_contracts (example_tick ''300750'' 2 T0) example_md)))
     = ticks_published (md_trace example_md)
   \<and> last_tick_time
       (fst (onDepthMarketData no_rounding no_contracts (example_tick ''300750'' 2 T0) example_md))
     = last_tick_time example_md"
proof -
  have h1: "\<not> subscribe_all example_md"
    by (rule example_md_fields)
  have h2: "ticker (example_tick ''300750'' 2 T0) \<notin> fst ` set (subscribe_request_list example_md)"
    by (simp add: example_tick_def example_md_fields)
  show ?thesis
    using unsubscribed_symbol_is_dropped [OF h1 h2] by simp
qed

text \<open>
  The claim as written drops every tick whose (symbol, exchange) pair is not in
  the registry. The registry holds \<open>000001\<close> of SZSE only; a tick of \<open>000001\<close> of
  SSE, a different contract, is published.
\<close>

theorem same_symbol_other_exchange_is_published:
  "\<not> subscribe_all example_md
   \<and> (''000001'', SSE) \<notin> set (subscribe_request_list example_md)
   \<and> EXCHANGE_XTP2VT (exchange_id (example_tick ''000001'' 1 T0)) = Some SSE
   \<and> map tk_symbol (ticks_published (md_appended example_md
        (fst (onDepthMarketData no_rounding no_contracts (example_tick ''000001'' 1 T0) example_md))))
     = [''000001'']
   \<and> map tk_exchange (ticks_published (md_appended example_md
        (fst (onDepthMarketData no_rounding no_contracts (example_tick ''000001'' 1 T0) example_md))))
     = [SSE]"
  by (simp add: example_md_fields onDepthMarketData_def example_tick_def EXCHANGE_XTP2VT_def
        Let_def md_emit_def md_appended_def five_def no_contracts_def)

section \<open>Properties of the trading session\<close>

subsection \<open>Facts about the concrete session and payloads\<close>

lemma example_td_fields:
  "td_connect_status example_td" "td_login_status example_td"
  "td_session_id example_td = 7" "reqid example_td = 1"
  "orders example_td = Map.empty" "td_gateway_name example_td = ''XTP''"
  "short_positions example_td = []" "td_userid example_td = ''alice''"
  by (simp_all add: example_td_def example_td_env_def example_env_def XtpTdApi_init_def
        td_connect_def td_login_server_def Let_def td_emit_def query_option_info_def
        PROTOCOL_VT2XTP_def)

lemma example_fill_trade:
  "trade_of_event ''XTP'' (example_fill orderid volume) = Inr (example_trade orderid volume)"
  by (simp add: trade_of_event_def example_fill_def example_trade_def direction_offset_def
        DIRECTION_STOCK_XTP2VT_def MARKET_XTP2VT_def)

lemma example_order_event_new:
  assumes "STATUS_XTP2VT k = Some s" and "orders st orderid = None"
    and "td_gateway_name st = ''XTP''"
  shows "onOrderEvent (example_order_event orderid k traded) no_error st =
           (st\<lparr>orders := (orders st)(orderid \<mapsto> example_order orderid s traded),
               td_trace := td_trace st @ [on_order (example_order orderid s traded)]\<rparr>, None)"
  using assms
  by (simp add: onOrderEvent_def example_order_event_def no_error_def
        direction_offset_def DIRECTION_STOCK_XTP2VT_def order_type_of_def
        EQUITY_ORDERTYPE_XTP2VT_def MARKET_XTP2VT_def Let_def
        stamp_and_publish_def td_emit_def example_order_def)

lemma example_td_with_order_eq:
  "example_td_with_order =
     example_td\<lparr>orders := [42 \<mapsto> example_order 42 NOTTRADED 0],
                 td_trace := td_trace example_td @ [on_order (example_order 42 NOTTRADED 0)]\<rparr>"
proof -
  have "STATUS_XTP2VT 4 = Some NOTTRADED" by (simp add: STATUS_XTP2VT_def)
  then show ?thesis
    by (simp add: example_td_with_order_def example_order_event_new example_td_fields)
qed

subsection \<open>What the helpers leave alone\<close>

lemma orders_td_emit [simp]: "orders (td_emit e st) = orders st"
  by (simp add: td_emit_def)

lemma orders_query_account [simp]: "orders (query_account st) = orders st"
  by (simp add: query_account_def Let_def td_emit_def)

lemma orders_query_credit_asset [simp]: "orders (query_credit_asset st) = orders st"
  by (simp add: query_credit_asset_def Let_def td_emit_def)

lemma trade_of_event_fields:
  assumes "trade_of_event gateway_name data = Inr trade"
  shows "t_orderid trade = te_order_xtp_id data" and "t_volume trade = te_quantity data"
  using assms
  by (auto simp: trade_of_event_def split: sum.splits option.splits prod.splits)

subsection \<open>A fill whose order is not in the cache\<close>

text \<open>
  Claim C2, as the code has it. A trade event that decodes to a \<^verbatim>\<open>TradeData\<close> whose
  order id is not in \<open>orders\<close> is reported with a log line, after which the trade
  is still handed to the host with \<^verbatim>\<open>on_trade\<close>. Nothing else happens to the
  session: no order is created or published, \<open>orders\<close> and the request counter
  are as before, and no account query is sent to the vendor.
\<close>

theorem trade_for_unknown_order:
  assumes "trade_of_event (td_gateway_name st) data = Inr trade"
    and "orders st (t_orderid trade) = None"
  shows "fst (onTradeEvent data st) =
           st\<lparr>td_trace := td_trace st @
                [write_log (TradeOrderNotFound (t_orderid trade)), on_trade trade]\<rparr>"
  using assms by (simp add: onTradeEvent_def Let_def td_emit_def)

theorem trade_for_unknown_order_witness:
  "fst (onTradeEvent (example_fill 42 300) example_td) =
     example_td\<lparr>td_trace := td_trace example_td @
        [write_log (TradeOrderNotFound 42), on_trade (example_trade 42 300)]\<rparr>"
proof -
  have h1: "trade_of_event (td_gateway_name example_td) (example_fill 42 300)
              = Inr (example_trade 42 300)"
    by (simp add: example_td_fields example_fill_trade)
  have h2: "orders example_td (t_orderid (example_trade 42 300)) = None"
    by (simp add: example_td_fields)
  show ?thesis
    using trade_for_unknown_order [OF h1 h2] by (simp add: example_trade_def)
qed

text \<open>
  The claim as written has the trade dropped and the callback return normally.
  For a fill of the unknown order 42 the trade is published, and the callback
  then stops with \<^verbatim>\<open>UnboundLocalError\<close>.
\<close>

theorem trade_for_unknown_order_is_published_and_raises:
  "orders example_td 42 = None
   \<and> td_appended example_td (fst (onTradeEvent (example_fill 42 300) example_td)) =
       [write_log (TradeOrderNotFound 42), on_trade (example_trade 42 300)]
   \<and> snd (onTradeEvent (example_fill 42 300) example_td) = Some UnboundLocalError"
  by (simp add: example_td_fields onTradeEvent_def example_fill_trade Let_def td_emit_def
        td_appended_def example_trade_def)

subsection \<open>A fill whose order is in the cache\<close>

text \<open>
  Claim C5. A trade event that decodes to a \<^verbatim>\<open>TradeData\<close> whose order id is in
  \<open>orders\<close>: the order's traded volume grows by exactly the fill volume; its
  status becomes \<open>PARTTRADED\<close> when the new traded volume is below the order's
  volume and \<open>ALLTRADED\<close> otherwise; the updated order and then the trade are
  published; and, the recomputed status being one of those two,
  \<^verbatim>\<open>query_account\<close> and \<^verbatim>\<open>query_credit_asset\<close> are run, which send the two vendor
  queries when the session is connected. The callback returns normally.
\<close>

theorem trade_fill_merges_into_order:
  assumes "trade_of_event (td_gateway_name st) data = Inr trade"
    and "orders st (t_orderid trade) = Some order"
  shows "let traded = o_traded order + t_volume trade;
             status = (if traded < o_volume order then PARTTRADED else ALLTRADED);
             order1 = order\<lparr>o_traded := traded, o_status := status\<rparr>;
             published = td_emit (on_trade trade)
                           (td_emit (on_order order1)
                              (st\<lparr>orders := (orders st)(t_orderid trade \<mapsto> order1)\<rparr>));
             st1 = fst (onTradeEvent data st)
         in snd (onTradeEvent data st) = None
          \<and> orders st1 = (orders st)(t_orderid trade \<mapsto> order1)
          \<and> (status = PARTTRADED \<or> status = ALLTRADED)
          \<and> st1 = query_credit_asset (query_account published)
          \<and> td_appended st st1 =
              [on_order order1, on_trade trade] @
              (if td_connect_status st
               then [Vendor (queryAsset (td_session_id st) (reqid st + 1)),
                     Vendor (queryCreditFundInfo (td_session_id st) (reqid st + 2))]
               else [])"
  using assms
  by (simp add: onTradeEvent_def Let_def td_emit_def query_account_def query_credit_asset_def
        td_appended_def)

theorem trade_fill_merges_into_order_witness:
  "orders (fst (onTradeEvent (example_fill 42 300) example_td_with_order)) 42
     = Some (example_order 42 PARTTRADED 300)
   \<and> td_appended example_td_with_order
       (fst (onTradeEvent (example_fill 42 300) example_td_with_order))
     = [on_order (example_order 42 PARTTRADED 300), on_trade (example_trade 42 300),
        Vendor (queryAsset 7 2), Vendor (queryCreditFundInfo 7 3)]"
proof -
  have h1: "trade_of_event (td_gateway_name example_td_with_order) (example_fill 42 300)
              = Inr (example_trade 42 300)"
    by (simp add: example_td_with_order_eq example_td_fields example_fill_trade)
  have h2: "orders example_td_with_order (t_orderid (example_trade 42 300))
              = Some (example_order 42 NOTTRADED 0)"
    by (simp add: example_td_with_order_eq example_trade_def)
  have new_order: "(example_order 42 NOTTRADED 0)
            \<lparr>o_traded := o_traded (example_order 42 NOTTRADED 0) + t_volume (example_trade 42 300),
             o_status := (if o_traded (example_order 42 NOTTRADED 0) + t_volume (example_trade 42 300)
                             < o_volume (example_order 42 NOTTRADED 0)
                          then PARTTRADED else ALLTRADED)\<rparr>
          = example_order 42 PARTTRADED 300"
    by (simp add: example_order_def example_trade_def)
  have id: "t_orderid (example_trade 42 300) = 42"
    by (simp add: example_trade_def)
  have fields: "td_connect_status example_td_with_order"
    "td_session_id example_td_with_order = 7" "reqid example_td_with_order = 1"
    by (simp_all add: example_td_with_order_eq example_td_fields)
  let ?st1 = "fst (onTradeEvent (example_fill 42 300) example_td_with_order)"
  have "orders ?st1 = (orders example_td_with_order)(42 \<mapsto> example_order 42 PARTTRADED 300)
      \<and> td_appended example_td_with_order ?st1 =
          [on_order (example_order 42 PARTTRADED 300), on_trade (example_trade 42 300)] @
          (if td_connect_status example_td_with_order
           then [Vendor (queryAsset (td_session_id example_td_with_order)
                           (reqid example_td_with_order + 1)),
                 Vendor (queryCreditFundInfo (td_session_id example_td_with_order)
                           (reqid example_td_with_order + 2))]
           else [])"
    using trade_fill_merges_into_order [OF h1 h2]
    unfolding Let_def new_order id
    by blast
  then show ?thesis
    by (simp add: fields)
qed

subsection \<open>Connecting a session that is connected\<close>

text \<open>
  Claim C8, as the code has it. Both \<^verbatim>\<open>connect\<close> methods store their arguments in
  the session before they test \<open>connect_status\<close>. On a connected session the call
  makes no vendor call and writes the log line that says the interface is
  logged in already; the connection state, the registry and the caches are left
  alone; but the stored connection parameters are overwritten with the
  arguments of the rejected call (user id, password, client id, server address
  and port, protocol and local address, and for the trading session the
  software key as well).
\<close>

theorem connect_when_connected_overwrites_parameters:
  "(md_connect_status st \<and> PROTOCOL_VT2XTP quote_protocol = Some protocol \<longrightarrow>
      md_connect env userid password client_id server_ip server_port quote_protocol log_level
        local_ip st =
        (st\<lparr>md_userid := userid, md_password := password, md_client_id := client_id,
             md_server_ip := server_ip, md_server_port := server_port, md_protocol := protocol,
             md_local_ip := local_ip,
             md_trace := md_trace st @ [write_log MdAlreadyLoggedIn]\<rparr>, None))
   \<and> (td_connect_status ts \<longrightarrow>
      td_connect env userid password client_id server_ip server_port software_key log_level
        local_ip (ts, contracts) =
        (ts\<lparr>td_userid := userid, td_password := password, td_client_id := client_id,
             td_server_ip := server_ip, td_server_port := server_port,
             td_software_key := software_key, td_protocol := 1, td_local_ip := local_ip,
             td_trace := td_trace ts @ [write_log TdAlreadyLoggedIn]\<rparr>, contracts))"
  by (simp add: md_connect_def td_connect_def Let_def md_emit_def td_emit_def PROTOCOL_VT2XTP_def)

theorem connect_when_connected_overwrites_parameters_witness:
  "md_connect example_env ''bob'' ''hunter2'' 2 ''10.0.0.2'' 7002 ''UDP'' 3 ''10.0.0.8'' example_md =
     (example_md\<lparr>md_userid := ''bob'', md_password := ''hunter2'', md_client_id := 2,
        md_server_ip := ''10.0.0.2'', md_server_port := 7002, md_protocol := 2,
        md_local_ip := ''10.0.0.8'',
        md_trace := md_trace example_md @ [write_log MdAlreadyLoggedIn]\<rparr>, None)
   \<and> td_connect example_env ''bob'' ''hunter2'' 2 ''10.0.0.2'' 7002 ''key2'' 3 ''10.0.0.8''
        (example_td, no_contracts) =
     (example_td\<lparr>td_userid := ''bob'', td_password := ''hunter2'', td_client_id := 2,
        td_server_ip := ''10.0.0.2'', td_server_port := 7002, td_software_key := ''key2'',
        td_protocol := 1, td_local_ip := ''10.0.0.8'',
        td_trace := td_trace example_td @ [write_log TdAlreadyLoggedIn]\<rparr>, no_contracts)"
proof -
  have h1: "md_connect_status example_md \<and> PROTOCOL_VT2XTP ''UDP'' = Some 2"
    by (simp add: example_md_fields PROTOCOL_VT2XTP_def)
  have h2: "td_connect_status example_td"
    by (rule example_td_fields)
  show ?thesis
    using h1 h2
      connect_when_connected_overwrites_parameters
        [where st = example_md and quote_protocol = "''UDP''" and protocol = 2
           and env = example_env and userid = "''bob''" and password = "''hunter2''"
           and client_id = 2 and server_ip = "''10.0.0.2''" and server_port = 7002
           and log_level = 3 and local_ip = "''10.0.0.8''" and ts = example_td
           and software_key = "''key2''" and contracts = no_contracts]
    by simp
qed

text \<open>
  The claim as written has the rejected call modify no field. Both sessions were
  connected as \<open>alice\<close>; after the rejected call they hold the user id \<open>bob\<close>.
\<close>

theorem rejected_connect_changes_the_user_id:
  "md_connect_status example_md \<and> md_userid example_md = ''alice''
   \<and> md_userid (fst (md_connect example_env ''bob'' ''hunter2'' 2 ''10.0.0.2'' 7002 ''TCP'' 3
                       ''10.0.0.8'' example_md)) = ''bob''
   \<and> td_connect_status example_td \<and> td_userid example_td = ''alice''
   \<and> td_userid (fst (td_connect example_env ''bob'' ''hunter2'' 2 ''10.0.0.2'' 7002 ''key2'' 3
                       ''10.0.0.8'' (example_td, no_contracts))) = ''bob''"
  by (simp add: example_md_fields example_td_fields md_connect_def td_connect_def Let_def
        md_emit_def td_emit_def PROTOCOL_VT2XTP_def)

subsection \<open>Order updates and fills on one order id\<close>

lemma onOrderEvent_within_volume:
  assumes "within_volume (oe_order_xtp_id data) st"
    and "event_within_volume (OrderEvent data err) st"
  shows "within_volume (oe_order_xtp_id data) (fst (onOrderEvent data err st))"
  using assms
  by (auto simp: onOrderEvent_def stamp_and_publish_def within_volume_def Let_def td_emit_def
           split: option.splits sum.splits prod.splits if_splits)

lemma onOrderEvent_status:
  assumes "onOrderEvent data err st = (st1, None)"
  shows "\<exists>order. orders st1 (oe_order_xtp_id data) = Some order
           \<and> Some (o_status order) = STATUS_XTP2VT (oe_order_status data)"
  using assms
  by (auto simp: onOrderEvent_def stamp_and_publish_def Let_def td_emit_def
           split: option.splits sum.splits prod.splits if_splits)

lemma onTradeEvent_within_volume:
  assumes "within_volume (te_order_xtp_id data) st"
    and "event_within_volume (TradeEvent data) st"
  shows "within_volume (te_order_xtp_id data) (fst (onTradeEvent data st))"
  using assms
  by (auto simp: onTradeEvent_def within_volume_def Let_def td_emit_def
           dest: trade_of_event_fields
           split: option.splits sum.splits)

lemma onTradeEvent_status:
  assumes "onTradeEvent data st = (st1, None)"
  shows "\<exists>order. orders st1 (te_order_xtp_id data) = Some order
           \<and> o_status order = (if o_traded order < o_volume order then PARTTRADED else ALLTRADED)"
proof -
  from assms obtain trade where tr: "trade_of_event (td_gateway_name st) data = Inr trade"
    by (auto simp: onTradeEvent_def split: sum.splits)
  have id: "t_orderid trade = te_order_xtp_id data"
    using trade_of_event_fields(1) [OF tr] .
  from assms tr obtain order where o: "orders st (t_orderid trade) = Some order"
    by (auto simp: onTradeEvent_def Let_def split: option.splits)
  let ?traded = "o_traded order + t_volume trade"
  let ?order2 = "order\<lparr>o_traded := ?traded,
                   o_status := (if ?traded < o_volume order then PARTTRADED else ALLTRADED)\<rparr>"
  have "orders st1 = (orders st)(t_orderid trade \<mapsto> ?order2)"
    using assms tr o by (auto simp: onTradeEvent_def Let_def split: if_splits)
  then have "orders st1 (te_order_xtp_id data) = Some ?order2"
    using id by simp
  moreover have "o_status ?order2 =
      (if o_traded ?order2 < o_volume ?order2 then PARTTRADED else ALLTRADED)"
    by simp
  ultimately show ?thesis by blast
qed

lemma td_deliver_within_volume:
  assumes "within_volume (event_order_id e) st" and "event_within_volume e st"
  shows "within_volume (event_order_id e) (fst (td_deliver e st))"
  using assms
  by (cases e) (simp_all add: onOrderEvent_within_volume onTradeEvent_within_volume)

lemma td_deliver_status:
  assumes "td_deliver e st = (st1, None)"
  shows "\<exists>order. orders st1 (event_order_id e) = Some order
           \<and> Some (o_status order) = status_after e order"
proof (cases e)
  case (OrderEvent data err)
  with assms show ?thesis using onOrderEvent_status [of data err st st1] by simp
next
  case (TradeEvent data)
  with assms show ?thesis using onTradeEvent_status [of data st st1] by auto
qed

lemma td_deliver_all_within_volume:
  assumes "\<forall>e \<in> set evs. event_order_id e = orderid"
    and "within_volume orderid st" and "events_within_volume evs st"
  shows "within_volume orderid (fst (td_deliver_all evs st))"
  using assms
proof (induction evs arbitrary: st)
  case Nil
  then show ?case by simp
next
  case (Cons e evs)
  obtain st1 x where d: "td_deliver e st = (st1, x)" by (cases "td_deliver e st")
  have id: "event_order_id e = orderid" using Cons.prems(1) by simp
  have w1: "within_volume orderid st1"
    using td_deliver_within_volume [of e st] Cons.prems id d by simp
  show ?case
  proof (cases x)
    case None
    then have "events_within_volume evs st1" using Cons.prems(3) d by simp
    then have "within_volume orderid (fst (td_deliver_all evs st1))"
      using Cons.IH [of st1] Cons.prems(1) w1 by simp
    then show ?thesis using d None by simp
  next
    case (Some err)
    then show ?thesis using d w1 by simp
  qed
qed

lemma events_within_volume_take:
  "events_within_volume evs st \<Longrightarrow> events_within_volume (take n evs) st"
proof (induction evs arbitrary: n st)
  case Nil
  then show ?case by simp
next
  case (Cons e evs)
  show ?case
  proof (cases n)
    case 0
    then show ?thesis by simp
  next
    case (Suc m)
    then show ?thesis
      using Cons.prems Cons.IH by (auto split: prod.splits option.splits)
  qed
qed

text \<open>
  Claim C1, as the code has it. Neither callback checks the traded volume against
  the order's volume or looks at the status it overwrites. What holds for the
  events of one order id is this. If every order update reports a cumulative
  traded quantity of at most the order's volume and every fill is at most what
  remains of the order when it arrives, the traded volume never exceeds the
  volume, after any number of the events. And the status after an event that was
  handled to the end is the status of that event alone: the mapped vendor status
  for an order update; \<open>PARTTRADED\<close> or \<open>ALLTRADED\<close>, by comparing traded volume
  and volume, for a fill. That holds whatever the status was before, the
  statuses \<open>ALLTRADED\<close>, \<open>CANCELLED\<close> and \<open>REJECTED\<close> included.
\<close>

theorem traded_stays_within_volume:
  assumes "\<forall>e \<in> set evs. event_order_id e = orderid"
    and "within_volume orderid st" and "events_within_volume evs st"
  shows "(\<forall>n. within_volume orderid (fst (td_deliver_all (take n evs) st)))
       \<and> (\<forall>n < length evs. \<forall>st1.
             td_deliver (evs ! n) (fst (td_deliver_all (take n evs) st)) = (st1, None) \<longrightarrow>
             (\<exists>order. orders st1 orderid = Some order
                    \<and> Some (o_status order) = status_after (evs ! n) order))"
proof (intro conjI allI impI)
  fix n
  have "\<forall>e \<in> set (take n evs). event_order_id e = orderid"
    using assms(1) by (meson in_set_takeD)
  then show "within_volume orderid (fst (td_deliver_all (take n evs) st))"
    using td_deliver_all_within_volume assms(2) events_within_volume_take [OF assms(3)] by blast
next
  fix n st1
  assume n: "n < length evs"
    and d: "td_deliver (evs ! n) (fst (td_deliver_all (take n evs) st)) = (st1, None)"
  have "event_order_id (evs ! n) = orderid" using assms(1) n by simp
  then show "\<exists>order. orders st1 orderid = Some order
                    \<and> Some (o_status order) = status_after (evs ! n) order"
    using td_deliver_status [OF d] by simp
qed

lemma example_event_fields:
  "oe_order_xtp_id (example_order_event orderid k traded) = orderid"
  "oe_qty_traded (example_order_event orderid k traded) = traded"
  "oe_quantity (example_order_event orderid k traded) = 1000"
  "te_order_xtp_id (example_fill orderid volume) = orderid"
  "te_quantity (example_fill orderid volume) = volume"
  by (simp_all add: example_order_event_def example_fill_def)

theorem traded_stays_within_volume_witness:
  "within_volume 42
     (fst (td_deliver_all
            [OrderEvent (example_order_event 42 2 300) no_error, TradeEvent (example_fill 42 300)]
            example_td))"
proof -
  let ?evs = "[OrderEvent (example_order_event 42 2 300) no_error, TradeEvent (example_fill 42 300)]"
  have s: "STATUS_XTP2VT 2 = Some PARTTRADED" by (simp add: STATUS_XTP2VT_def)
  have run: "onOrderEvent (example_order_event 42 2 300) no_error example_td =
     (example_td\<lparr>orders := [42 \<mapsto> example_order 42 PARTTRADED 300],
        td_trace := td_trace example_td @ [on_order (example_order 42 PARTTRADED 300)]\<rparr>, None)"
    using s by (simp add: example_order_event_new example_td_fields)
  have h1: "\<forall>e \<in> set ?evs. event_order_id e = 42"
    by (simp add: example_event_fields)
  have h2: "within_volume 42 example_td"
    by (simp add: within_volume_def example_td_fields)
  have h3: "events_within_volume ?evs example_td"
    by (simp add: run example_event_fields example_td_fields example_order_def
          split: prod.splits option.splits)
  have "\<forall>n. within_volume 42 (fst (td_deliver_all (take n ?evs) example_td))"
    using traded_stays_within_volume [OF h1 h2 h3] by blast
  then have "within_volume 42 (fst (td_deliver_all (take 2 ?evs) example_td))"
    by blast
  then show ?thesis by simp
qed

text \<open>
  The claim as written bounds the traded volume by the volume and freezes a
  terminal status. Order 42, for 1000 shares, is reported cancelled; a fill of
  2000 then arrives: the order is left with 2000 traded and status \<open>ALLTRADED\<close>.
\<close>

theorem fill_after_cancel_overfills_and_reopens:
  "orders (fst (td_deliver_all [OrderEvent (example_order_event 42 3 0) no_error] example_td)) 42
     = Some (example_order 42 CANCELLED 0)
   \<and> orders (fst (td_deliver_all
                    [OrderEvent (example_order_event 42 3 0) no_error,
                     TradeEvent (example_fill 42 2000)] example_td)) 42
     = Some (example_order 42 ALLTRADED 2000)
   \<and> o_volume (example_order 42 ALLTRADED 2000) = 1000
   \<and> o_traded (example_order 42 ALLTRADED 2000) = 2000"
proof -
  have s: "STATUS_XTP2VT 3 = Some CANCELLED" by (simp add: STATUS_XTP2VT_def)
  have run: "onOrderEvent (example_order_event 42 3 0) no_error example_td =
     (example_td\<lparr>orders := [42 \<mapsto> example_order 42 CANCELLED 0],
        td_trace := td_trace example_td @ [on_order (example_order 42 CANCELLED 0)]\<rparr>, None)"
    using s by (simp add: example_order_event_new example_td_fields)
  show ?thesis
    by (simp add: run onTradeEvent_def example_td_fields example_fill_trade Let_def
          example_trade_def example_order_def)
qed

subsection \<open>The pages of a credit-debt query\<close>

lemma positions_published_append [simp]:
  "positions_published (xs @ ys) = positions_published xs @ positions_published ys"
  by (simp add: positions_published_def)

lemma positions_published_Nil [simp]: "positions_published [] = []"
  by (simp add: positions_published_def)

lemma positions_published_positions:
  "positions_published (map (\<lambda>kv. on_position (snd kv)) acc) = map snd acc"
  by (induction acc) (simp_all add: positions_published_def)

lemma short_debt_total_snoc:
  "short_debt_total k (pages @ [d]) =
     short_debt_total k pages +
     (if de_debt_type d = 1 \<and> de_ticker d = k then de_remain_qty d else 0)"
  by (simp add: short_debt_total_def)

lemma short_debt_symbols_snoc:
  "short_debt_symbols (pages @ [d]) =
     (if de_debt_type d = 1 then insert (de_ticker d) (short_debt_symbols pages)
      else short_debt_symbols pages)"
  by (auto simp: short_debt_symbols_def)

lemma short_debt_total_absent:
  assumes "k \<notin> short_debt_symbols pages"
  shows "short_debt_total k pages = 0"
proof -
  have "filter (\<lambda>d. de_debt_type d = 1 \<and> de_ticker d = k) pages = []"
    using assms by (auto simp: filter_empty_conv short_debt_symbols_def)
  then show ?thesis by (simp add: short_debt_total_def)
qed

lemma accumulated_Nil: "accumulated [] []"
  by (simp add: accumulated_def short_debt_symbols_def)

lemma accumulated_skip:
  assumes "accumulated pages acc" and "de_debt_type d \<noteq> 1"
  shows "accumulated (pages @ [d]) acc"
  using assms by (simp add: accumulated_def short_debt_symbols_snoc short_debt_total_snoc)

lemma accumulated_step:
  assumes acc: "accumulated pages acc" and d: "de_debt_type d = 1"
    and fresh: "p_symbol fresh = de_ticker d" "p_direction fresh = SHORT" "p_volume fresh = 0"
  shows "accumulated (pages @ [d])
           (AList.update (de_ticker d)
              ((case map_of acc (de_ticker d) of None \<Rightarrow> fresh | Some p \<Rightarrow> p)
                 \<lparr>p_volume := p_volume (case map_of acc (de_ticker d) of None \<Rightarrow> fresh | Some p \<Rightarrow> p)
                               + de_remain_qty d\<rparr>)
              acc)"
proof -
  let ?k = "de_ticker d"
  let ?pos = "case map_of acc ?k of None \<Rightarrow> fresh | Some p \<Rightarrow> p"
  let ?new = "?pos\<lparr>p_volume := p_volume ?pos + de_remain_qty d\<rparr>"
  have dist: "distinct (map fst acc)"
    and dom: "dom (map_of acc) = short_debt_symbols pages"
    and vals: "\<And>k p. map_of acc k = Some p \<Longrightarrow>
                 p_symbol p = k \<and> p_direction p = SHORT \<and> p_volume p = short_debt_total k pages"
    using acc by (auto simp: accumulated_def)
  have pos: "p_symbol ?pos = ?k \<and> p_direction ?pos = SHORT
             \<and> p_volume ?pos = short_debt_total ?k pages"
  proof (cases "map_of acc ?k")
    case None
    then have "?k \<notin> short_debt_symbols pages" using dom by auto
    then show ?thesis using None fresh by (simp add: short_debt_total_absent)
  next
    case (Some p)
    then show ?thesis using vals [of ?k p] by simp
  qed
  have 1: "distinct (map fst (AList.update ?k ?new acc))"
    using dist by (rule distinct_update)
  have 2: "dom (map_of (AList.update ?k ?new acc)) = short_debt_symbols (pages @ [d])"
    using dom d by (simp add: update_conv' short_debt_symbols_snoc)
  have 3: "p_symbol p = k \<and> p_direction p = SHORT \<and> p_volume p = short_debt_total k (pages @ [d])"
    if "map_of (AList.update ?k ?new acc) k = Some p" for k p
  proof (cases "k = ?k")
    case True
    then have "p = ?new" using that by (simp add: update_conv')
    then show ?thesis using True pos d by (simp add: short_debt_total_snoc)
  next
    case False
    then have "map_of acc k = Some p" using that by (simp add: update_conv')
    then show ?thesis using vals [of k p] False by (simp add: short_debt_total_snoc)
  qed
  show ?thesis
    unfolding accumulated_def using 1 2 3 by blast
qed

lemma page_not_last:
  "onQueryCreditDebtInfo d False st =
     (if de_debt_type d = 1
      then (case MARKET_XTP2VT (de_market d) of
              None \<Rightarrow> (st, Some KeyError)
            | Some exchange \<Rightarrow>
                (let position =
                       (case map_of (short_positions st) (de_ticker d) of
                          None \<Rightarrow>
                            \<lparr>p_symbol = de_ticker d, p_exchange = exchange, p_direction = SHORT,
                             p_volume = 0, p_frozen = 0, p_price = 0, p_pnl = 0,
                             p_yd_volume = 0, p_gateway_name = td_gateway_name st\<rparr>
                        | Some p \<Rightarrow> p)
                 in (st\<lparr>short_positions :=
                          AList.update (de_ticker d)
                            (position\<lparr>p_volume := p_volume position + de_remain_qty d\<rparr>)
                            (short_positions st)\<rparr>, None)))
      else (st, None))"
  by (simp add: onQueryCreditDebtInfo_def Let_def split: option.splits)

lemma page_last:
  "onQueryCreditDebtInfo d True st =
     (case onQueryCreditDebtInfo d False st of
        (st1, None) \<Rightarrow>
          (st1\<lparr>td_trace := td_trace st1 @ map (\<lambda>kv. on_position (snd kv)) (short_positions st1),
               short_positions := []\<rparr>, None)
      | (st1, Some x) \<Rightarrow> (st1, Some x))"
  by (simp add: onQueryCreditDebtInfo_def Let_def split: option.splits sum.splits)

lemma page_not_last_accumulates:
  assumes "accumulated pages (short_positions st)"
    and "de_debt_type d = 1 \<longrightarrow> MARKET_XTP2VT (de_market d) \<noteq> None"
  shows "\<exists>acc1. onQueryCreditDebtInfo d False st = (st\<lparr>short_positions := acc1\<rparr>, None)
               \<and> accumulated (pages @ [d]) acc1"
proof (cases "de_debt_type d = 1")
  case True
  then obtain exchange where ex: "MARKET_XTP2VT (de_market d) = Some exchange"
    using assms(2) by auto
  let ?acc = "short_positions st"
  let ?fresh = "\<lparr>p_symbol = de_ticker d, p_exchange = exchange, p_direction = SHORT,
                  p_volume = 0, p_frozen = 0, p_price = 0, p_pnl = 0,
                  p_yd_volume = 0, p_gateway_name = td_gateway_name st\<rparr>"
  let ?pos = "case map_of ?acc (de_ticker d) of None \<Rightarrow> ?fresh | Some p \<Rightarrow> p"
  let ?acc1 = "AList.update (de_ticker d) (?pos\<lparr>p_volume := p_volume ?pos + de_remain_qty d\<rparr>) ?acc"
  have "accumulated (pages @ [d]) ?acc1"
    using assms(1) True by (rule accumulated_step) simp_all
  moreover have "onQueryCreditDebtInfo d False st = (st\<lparr>short_positions := ?acc1\<rparr>, None)"
    using True ex by (simp add: page_not_last Let_def)
  ultimately show ?thesis by blast
next
  case False
  have "st\<lparr>short_positions := short_positions st\<rparr> = st" by simp
  then have "onQueryCreditDebtInfo d False st = (st\<lparr>short_positions := short_positions st\<rparr>, None)"
    using False by (simp add: page_not_last)
  then show ?thesis
    using accumulated_skip [OF assms(1) False] by blast
qed

lemma debt_pages_append:
  "debt_pages (xs @ ys) st =
     (case debt_pages xs st of
        (st1, None) \<Rightarrow> debt_pages ys st1
      | (st1, Some x) \<Rightarrow> (st1, Some x))"
  by (induction xs arbitrary: st) (auto split: prod.splits option.splits)

lemma pages_not_last_accumulate:
  assumes "short_positions st = []"
    and "\<forall>d \<in> set pages. de_debt_type d = 1 \<longrightarrow> MARKET_XTP2VT (de_market d) \<noteq> None"
  shows "\<exists>acc. debt_pages (map (\<lambda>d. (d, False)) pages) st = (st\<lparr>short_positions := acc\<rparr>, None)
              \<and> accumulated pages acc"
  using assms(2)
proof (induction pages rule: rev_induct)
  case Nil
  have "st\<lparr>short_positions := short_positions st\<rparr> = st" by simp
  then have same: "st\<lparr>short_positions := []\<rparr> = st" unfolding assms(1) .
  have "debt_pages (map (\<lambda>d. (d, False)) []) st = (st\<lparr>short_positions := []\<rparr>, None)
        \<and> accumulated [] []"
    by (simp add: same accumulated_Nil)
  then show ?case by blast
next
  case (snoc d pages)
  then obtain acc where run: "debt_pages (map (\<lambda>d. (d, False)) pages) st
                               = (st\<lparr>short_positions := acc\<rparr>, None)"
    and acc: "accumulated pages acc"
    by auto
  have acc': "accumulated pages (short_positions (st\<lparr>short_positions := acc\<rparr>))"
    using acc by simp
  have "de_debt_type d = 1 \<longrightarrow> MARKET_XTP2VT (de_market d) \<noteq> None"
    using snoc.prems by simp
  then obtain acc1 where
    step: "onQueryCreditDebtInfo d False (st\<lparr>short_positions := acc\<rparr>)
             = (st\<lparr>short_positions := acc, short_positions := acc1\<rparr>, None)"
    and acc1: "accumulated (pages @ [d]) acc1"
    using page_not_last_accumulates [OF acc'] by blast
  have "debt_pages (map (\<lambda>d. (d, False)) (pages @ [d])) st = (st\<lparr>short_positions := acc1\<rparr>, None)"
    using run step by (simp add: debt_pages_append)
  then show ?case using acc1 by blast
qed

lemma accumulated_symbols:
  assumes "accumulated pages acc"
  shows "map p_symbol (map snd acc) = map fst acc"
proof -
  have "p_symbol (snd kv) = fst kv" if "kv \<in> set acc" for kv
  proof -
    have "map_of acc (fst kv) = Some (snd kv)"
      using assms that by (simp add: accumulated_def)
    then show ?thesis using assms by (simp add: accumulated_def)
  qed
  then show ?thesis by simp
qed

text \<open>
  Claim C9, as the code has it. \<^verbatim>\<open>onQueryCreditDebtInfo\<close> adds a page to the
  accumulator only when the page's \<^verbatim>\<open>debt_type\<close> is 1, a short-sale debt; the
  remainders of pages of any other type are not summed. Starting from an empty
  accumulator, with the pages before the last flagged as not last: nothing is
  published from the pages before the last; on the last page one position is
  published for each symbol that has a page of type 1, with direction \<open>SHORT\<close>
  and volume the sum of the remainders of that symbol's pages of type 1; the
  accumulator is empty afterwards. A page of type 1 has to carry a market of the
  table \<^verbatim>\<open>MARKET_XTP2VT\<close>, or the callback raises \<^verbatim>\<open>KeyError\<close>.
\<close>

theorem short_debt_published_on_last_page:
  assumes "short_positions st = []"
    and "\<forall>d \<in> set (pages @ [final]). de_debt_type d = 1 \<longrightarrow> MARKET_XTP2VT (de_market d) \<noteq> None"
  shows "let all_pages = pages @ [final];
             before = debt_pages (map (\<lambda>d. (d, False)) pages) st;
             after = debt_pages (map (\<lambda>d. (d, False)) pages @ [(final, True)]) st;
             published = positions_published (td_appended st (fst after))
         in snd after = None
          \<and> positions_published (td_appended st (fst before)) = []
          \<and> short_positions (fst after) = []
          \<and> distinct (map p_symbol published)
          \<and> set (map p_symbol published) = short_debt_symbols all_pages
          \<and> (\<forall>p \<in> set published.
                p_direction p = SHORT \<and> p_volume p = short_debt_total (p_symbol p) all_pages)"
proof -
  have valid: "\<forall>d \<in> set pages. de_debt_type d = 1 \<longrightarrow> MARKET_XTP2VT (de_market d) \<noteq> None"
    "de_debt_type final = 1 \<longrightarrow> MARKET_XTP2VT (de_market final) \<noteq> None"
    using assms(2) by simp_all
  obtain acc where before: "debt_pages (map (\<lambda>d. (d, False)) pages) st
                              = (st\<lparr>short_positions := acc\<rparr>, None)"
    and acc: "accumulated pages acc"
    using pages_not_last_accumulate [OF assms(1) valid(1)] by blast
  have acc': "accumulated pages (short_positions (st\<lparr>short_positions := acc\<rparr>))"
    using acc by simp
  obtain acc1 where step: "onQueryCreditDebtInfo final False (st\<lparr>short_positions := acc\<rparr>)
                             = (st\<lparr>short_positions := acc, short_positions := acc1\<rparr>, None)"
    and acc1: "accumulated (pages @ [final]) acc1"
    using page_not_last_accumulates [OF acc' valid(2)] by blast
  have after: "debt_pages (map (\<lambda>d. (d, False)) pages @ [(final, True)]) st =
                 (st\<lparr>td_trace := td_trace st @ map (\<lambda>kv. on_position (snd kv)) acc1,
                     short_positions := []\<rparr>, None)"
    by (simp add: debt_pages_append before page_last step)
  have pub: "positions_published (td_appended st
               (st\<lparr>td_trace := td_trace st @ map (\<lambda>kv. on_position (snd kv)) acc1,
                   short_positions := []\<rparr>)) = map snd acc1"
    by (simp add: td_appended_def positions_published_positions)
  have sym: "map p_symbol (map snd acc1) = map fst acc1"
    using acc1 by (rule accumulated_symbols)
  have dist: "distinct (map fst acc1)"
    and dom: "dom (map_of acc1) = short_debt_symbols (pages @ [final])"
    using acc1 by (simp_all add: accumulated_def)
  have vals: "p_direction p = SHORT \<and> p_volume p = short_debt_total (p_symbol p) (pages @ [final])"
    if "p \<in> set (map snd acc1)" for p
  proof -
    from that obtain k where "(k, p) \<in> set acc1" by auto
    then have "map_of acc1 k = Some p" using dist by simp
    then show ?thesis using acc1 by (auto simp: accumulated_def)
  qed
  have keys: "set (map fst acc1) = short_debt_symbols (pages @ [final])"
    using dom by (simp add: dom_map_of_conv_image_fst)
  have d1: "distinct (map p_symbol (map snd acc1))"
    by (simp only: sym dist)
  have k1: "set (map p_symbol (map snd acc1)) = short_debt_symbols (pages @ [final])"
    by (simp only: sym keys)
  have quiet: "positions_published (td_appended st (st\<lparr>short_positions := acc\<rparr>)) = []"
    by (simp add: td_appended_def)
  show ?thesis
    unfolding Let_def after before fst_conv snd_conv pub quiet
    using d1 k1 vals by simp
qed

lemma example_debt_fields:
  "de_debt_type (example_debt debt_type symbol remain) = debt_type"
  "de_ticker (example_debt debt_type symbol remain) = symbol"
  "de_market (example_debt debt_type symbol remain) = 1"
  "de_remain_qty (example_debt debt_type symbol remain) = remain"
  by (simp_all add: example_debt_def)

theorem short_debt_published_on_last_page_witness:
  "snd (debt_pages [(example_debt 1 ''000001'' 200, False), (example_debt 1 ''000001'' 50, True)]
          example_td) = None
   \<and> short_positions
       (fst (debt_pages [(example_debt 1 ''000001'' 200, False), (example_debt 1 ''000001'' 50, True)]
               example_td)) = []
   \<and> set (map p_symbol (positions_published (td_appended example_td
       (fst (debt_pages [(example_debt 1 ''000001'' 200, False), (example_debt 1 ''000001'' 50, True)]
               example_td))))) = {''000001''}"
proof -
  have h1: "short_positions example_td = []"
    by (rule example_td_fields)
  have h2: "\<forall>d \<in> set ([example_debt 1 ''000001'' 200] @ [example_debt 1 ''000001'' 50]).
              de_debt_type d = 1 \<longrightarrow> MARKET_XTP2VT (de_market d) \<noteq> None"
    by (simp add: example_debt_fields MARKET_XTP2VT_def)
  have symbols: "short_debt_symbols ([example_debt 1 ''000001'' 200] @ [example_debt 1 ''000001'' 50])
                   = {''000001''}"
    by (simp add: short_debt_symbols_def example_debt_fields)
  show ?thesis
    using short_debt_published_on_last_page [OF h1 h2]
    unfolding Let_def symbols
    by simp
qed

text \<open>
  The claim as written sums the remainders of all the pages of a symbol. Symbol
  \<open>000001\<close> has a page of debt type 0 with remainder 200 and a last page of debt
  type 1 with remainder 50: the position published has volume 50, not 250.
\<close>

theorem cash_debt_page_is_not_summed:
  "map p_symbol (positions_published (td_appended example_td
     (fst (debt_pages [(example_debt 0 ''000001'' 200, False), (example_debt 1 ''000001'' 50, True)]
             example_td)))) = [''000001'']
   \<and> map p_volume (positions_published (td_appended example_td
     (fst (debt_pages [(example_debt 0 ''000001'' 200, False), (example_debt 1 ''000001'' 50, True)]
             example_td)))) = [50]
   \<and> de_remain_qty (example_debt 0 ''000001'' 200) + de_remain_qty (example_debt 1 ''000001'' 50)
       = 250"
  by (simp add: onQueryCreditDebtInfo_def example_debt_fields example_td_fields MARKET_XTP2VT_def
        Let_def td_appended_def positions_published_def)

end
